theory Spec2Isabelle
  imports Main "HOL-Library.Word"
begin

section \<open>Call selectors (primitives.h)\<close>

type_synonym selector = "64 word"

definition kSelectorAsyloInvalid :: selector where
  "kSelectorAsyloInvalid = 0"

definition kSelectorAsyloInit :: selector where
  "kSelectorAsyloInit = 1"

definition kSelectorAsyloRun :: selector where
  "kSelectorAsyloRun = 2"

definition kSelectorAsyloDonateThread :: selector where
  "kSelectorAsyloDonateThread = 3"

definition kSelectorAsyloFini :: selector where
  "kSelectorAsyloFini = 4"

definition kSelectorUser :: selector where
  "kSelectorUser = 128"

definition kSelectorHostCall :: selector where
  "kSelectorHostCall = 112"

text \<open>
  Modelled from the spec: \<open>kSelectorRemote\<close>, the exclusive upper end of the host-call
  sub-range, is named in a comment of primitives.h but not declared there. The spec gives
  the sub-range as \<open>[112, 128)\<close>, so its end is the start of the user range.
\<close>
definition kSelectorRemote :: selector where
  "kSelectorRemote = 128"

text \<open>
  "Selector values less than kSelectorUser are reserved by the runtime and may not be
  registered by the applications."
\<close>
definition is_reserved_selector :: "selector \<Rightarrow> bool" where
  "is_reserved_selector s = (s < kSelectorUser)"

definition is_user_selector :: "selector \<Rightarrow> bool" where
  "is_user_selector s = (kSelectorUser \<le> s)"

text \<open>
  "Selector values in [kSelectorHostCall, kSelectorRemote) range are reserved for
  untrusted host call handlers."
\<close>
definition is_host_call_selector :: "selector \<Rightarrow> bool" where
  "is_host_call_selector s = (kSelectorHostCall \<le> s \<and> s < kSelectorRemote)"

datatype lifecycle_entry = Init | Run | DonateThread | Fini

fun lifecycle_selector :: "lifecycle_entry \<Rightarrow> selector" where
  "lifecycle_selector Init = kSelectorAsyloInit"
| "lifecycle_selector Run = kSelectorAsyloRun"
| "lifecycle_selector DonateThread = kSelectorAsyloDonateThread"
| "lifecycle_selector Fini = kSelectorAsyloFini"

section \<open>Native I/O contexts (native_paths.cc)\<close>

type_synonym byte = "8 word"
type_synonym addr = "64 word"

text \<open>\<open>struct iovec\<close>: a base pointer and a \<open>size_t\<close> length.\<close>
record iovec =
  iov_base :: addr
  iov_len :: "64 word"

text \<open>
  What the enclave does towards the outside, in order: allocations from the untrusted
  memory pool and host calls.
\<close>
datatype io_event =
  EvMalloc "64 word"
  | EvWritev int addr int
  | EvReadv int int addr int

text \<open>
  The state the functions act on: \<open>errno\<close>, one flat memory, and the trace of events.
\<close>
record io_state =
  errno :: int
  memory :: "addr \<Rightarrow> byte"
  trace :: "io_event list"

text \<open>
  The collaborators that are not in native_paths.cc: the pool's \<open>Malloc\<close> (a null
  pointer, 0, when it fails) and the two host calls, each giving its return value.
\<close>
record io_host =
  Malloc :: "64 word \<Rightarrow> addr"
  enc_untrusted_writev :: "int \<Rightarrow> addr \<Rightarrow> int \<Rightarrow> int"
  enc_untrusted_readv :: "int \<Rightarrow> int \<Rightarrow> addr \<Rightarrow> int \<Rightarrow> int"

definition EINVAL :: int where
  "EINVAL = 22"

text \<open>
  \<open>for (int i = 0; i < iovcnt; ++i) total_size += iov[i].iov_len;\<close> with \<open>size_t\<close>
  wrap-around. The array \<open>iov\<close> is the memory behind the pointer, read by index.
\<close>
definition total_iov_len :: "(nat \<Rightarrow> iovec) \<Rightarrow> int \<Rightarrow> 64 word" where
  "total_iov_len iov iovcnt = fold (\<lambda>i total_size. total_size + iov_len (iov i)) [0..<nat iovcnt] 0"

text \<open>\<open>*size = total_size\<close>: a \<open>size_t\<close> stored into an \<open>int\<close>.\<close>
definition size_t_to_int :: "64 word \<Rightarrow> int" where
  "size_t_to_int n = sint (ucast n :: 32 word)"

text \<open>
  \<open>CreateUntrustedBuffer\<close>: \<open>None\<close> is the source's \<open>false\<close>, otherwise the buffer and
  its size.
\<close>
definition CreateUntrustedBuffer ::
  "io_host \<Rightarrow> (nat \<Rightarrow> iovec) \<Rightarrow> int \<Rightarrow> io_state \<Rightarrow> (addr \<times> int) option \<times> io_state" where
  "CreateUntrustedBuffer host iov iovcnt st =
     (let total_size = total_iov_len iov iovcnt;
          tmp = Malloc host total_size;
          st1 = st\<lparr>trace := trace st @ [EvMalloc total_size]\<rparr>
      in if tmp = 0 then (None, st1)
         else (Some (tmp, size_t_to_int total_size), st1))"

text \<open>\<open>memcpy(dst, src, len)\<close> on the flat memory.\<close>
definition memcpy :: "(addr \<Rightarrow> byte) \<Rightarrow> addr \<Rightarrow> addr \<Rightarrow> 64 word \<Rightarrow> (addr \<Rightarrow> byte)" where
  "memcpy m dst src len = (\<lambda>a. if a - dst < len then m (src + (a - dst)) else m a)"

text \<open>The copy loop of \<open>SerializeIov\<close>, from index \<open>i\<close> on.\<close>
fun copy_iov :: "(nat \<Rightarrow> iovec) \<Rightarrow> nat list \<Rightarrow> addr \<Rightarrow> 64 word \<Rightarrow> (addr \<Rightarrow> byte) \<Rightarrow> (addr \<Rightarrow> byte)" where
  "copy_iov iov [] tmp copied_bytes m = m"
| "copy_iov iov (i # is) tmp copied_bytes m =
     (let len = iov_len (iov i)
      in copy_iov iov is tmp (copied_bytes + len)
           (memcpy m (tmp + copied_bytes) (iov_base (iov i)) len))"

definition SerializeIov ::
  "io_host \<Rightarrow> (nat \<Rightarrow> iovec) \<Rightarrow> int \<Rightarrow> io_state \<Rightarrow> (addr \<times> int) option \<times> io_state" where
  "SerializeIov host iov iovcnt st =
     (case CreateUntrustedBuffer host iov iovcnt st of
        (None, st1) \<Rightarrow> (None, st1)
      | (Some (tmp, sz), st1) \<Rightarrow>
          (Some (tmp, sz),
           st1\<lparr>memory := copy_iov iov [0..<nat iovcnt] tmp 0 (memory st1)\<rparr>))"

text \<open>\<open>IOContextNative::Writev\<close>, on the context's \<open>host_fd_\<close>.\<close>
definition Writev ::
  "io_host \<Rightarrow> int \<Rightarrow> (nat \<Rightarrow> iovec) \<Rightarrow> int \<Rightarrow> io_state \<Rightarrow> int \<times> io_state" where
  "Writev host host_fd iov iovcnt st =
     (if iovcnt \<le> 0 then (-1, st\<lparr>errno := EINVAL\<rparr>)
      else case SerializeIov host iov iovcnt st of
        (None, st1) \<Rightarrow> (-1, st1)
      | (Some (buf, sz), st1) \<Rightarrow>
          (enc_untrusted_writev host host_fd buf sz,
           st1\<lparr>trace := trace st1 @ [EvWritev host_fd buf sz]\<rparr>))"

text \<open>\<open>IOContextNative::Readv\<close>.\<close>
definition Readv ::
  "io_host \<Rightarrow> int \<Rightarrow> (nat \<Rightarrow> iovec) \<Rightarrow> int \<Rightarrow> io_state \<Rightarrow> int \<times> io_state" where
  "Readv host host_fd iov iovcnt st =
     (if iovcnt \<le> 0 then (-1, st\<lparr>errno := EINVAL\<rparr>)
      else case CreateUntrustedBuffer host iov iovcnt st of
        (None, st1) \<Rightarrow> (-1, st1)
      | (Some (buf, sz), st1) \<Rightarrow>
          (enc_untrusted_readv host host_fd iovcnt buf sz,
           st1\<lparr>trace := trace st1 @ [EvReadv host_fd iovcnt buf sz]\<rparr>))"

section \<open>Status and errors\<close>

text \<open>The error taxonomy of the marshaling layer, and a status: success or an error.\<close>
datatype error =
  InvalidArgument | NotFound | AlreadyRegistered | ReservedSelector | Closed
  | Underflow | SizeMismatch | CorruptedStack | Fatal

datatype status = OkStatus | Error error

section \<open>Memory layout and boundary validators (trusted_runtime.h)\<close>

text \<open>\<open>struct EnclaveMemoryLayout\<close>, field by field.\<close>
record EnclaveMemoryLayout =
  data_base :: addr
  data_size :: "64 word"
  bss_base :: addr
  bss_size :: "64 word"
  heap_base :: addr
  heap_size :: "64 word"
  thread_base :: addr
  thread_size :: "64 word"
  stack_base :: addr
  stack_limit :: addr
  reserved_data_base :: addr
  reserved_data_size :: "64 word"
  reserved_bss_base :: addr
  reserved_bss_size :: "64 word"
  reserved_heap_base :: addr
  reserved_heap_size :: "64 word"

text \<open>
  The regions the layout records, each as (lowest address, number of bytes). The stack
  goes down: \<open>stack_base\<close> is its upper bound and \<open>stack_limit\<close> its lower bound.
\<close>
definition regions :: "EnclaveMemoryLayout \<Rightarrow> (nat \<times> nat) list" where
  "regions l =
     [(unat (data_base l), unat (data_size l)),
      (unat (bss_base l), unat (bss_size l)),
      (unat (heap_base l), unat (heap_size l)),
      (unat (thread_base l), unat (thread_size l)),
      (unat (stack_limit l), unat (stack_base l) - unat (stack_limit l)),
      (unat (reserved_data_base l), unat (reserved_data_size l)),
      (unat (reserved_bss_base l), unat (reserved_bss_size l)),
      (unat (reserved_heap_base l), unat (reserved_heap_size l))]"

definition in_region :: "nat \<times> nat \<Rightarrow> nat \<Rightarrow> bool" where
  "in_region r x = (fst r \<le> x \<and> x < fst r + snd r)"

definition in_enclave :: "EnclaveMemoryLayout \<Rightarrow> nat \<Rightarrow> bool" where
  "in_enclave l x = list_ex (\<lambda>r. in_region r x) (regions l)"

text \<open>The set of addresses that belong to the enclave, as the snapshot records it.\<close>
definition enclave_addresses :: "EnclaveMemoryLayout \<Rightarrow> nat set" where
  "enclave_addresses l = (\<Union>r \<in> set (regions l). {fst r ..< fst r + snd r})"

text \<open>
  Modelled from the spec: trusted_runtime.h only declares \<open>enc_is_within_enclave\<close>; its
  body belongs to a backend that is not among the sources. The spec's contract: the
  address range [address, address + size) is fully contained within the enclave's regions
  as recorded in the layout. The check walks the addresses of the range.
\<close>
definition enc_is_within_enclave :: "EnclaveMemoryLayout \<Rightarrow> addr \<Rightarrow> 64 word \<Rightarrow> bool" where
  "enc_is_within_enclave l address sz =
     list_all (in_enclave l) [unat address ..< unat address + unat sz]"

text \<open>
  Modelled from the spec: \<open>enc_is_outside_enclave\<close> is declared only, too. The contract:
  the range [address, address + size) is fully contained outside of the enclave.
\<close>
definition enc_is_outside_enclave :: "EnclaveMemoryLayout \<Rightarrow> addr \<Rightarrow> 64 word \<Rightarrow> bool" where
  "enc_is_outside_enclave l address sz =
     list_all (\<lambda>x. \<not> in_enclave l x) [unat address ..< unat address + unat sz]"

section \<open>ParameterStack\<close>

text \<open>
  Modelled from the spec: the class \<open>ParameterStack\<close> (parameter_stack.h) is not among the
  sources; only its callers are. The spec: an ordered last-in-first-out sequence of
  variable-length byte regions; \<open>push_by_copy\<close> duplicates the bytes and appends them;
  \<open>pop\<close> removes and returns the most recently pushed entry and fails with \<open>Underflow\<close>
  on an empty stack; \<open>pop<T>\<close> reads a value of the type \<open>T\<close> from the popped entry;
  \<open>size\<close> is the number of entries held.
\<close>
type_synonym ParameterStack = "byte list list"

text \<open>Modelled from the spec: \<open>size()\<close>, the number of entries currently held.\<close>
definition stack_size :: "ParameterStack \<Rightarrow> nat" where
  "stack_size params = length params"

text \<open>
  Modelled from the spec: \<open>PushByCopy\<close> of a value or array, the typed form of
  \<open>push_by_copy\<close>: the bytes are duplicated into storage the stack owns and appended.
\<close>
definition PushByCopy :: "byte list \<Rightarrow> ParameterStack \<Rightarrow> ParameterStack" where
  "PushByCopy v params = params @ [v]"

text \<open>
  Modelled from the spec: \<open>Pop()\<close> removes and returns the most recently pushed entry
  and fails with \<open>Underflow\<close> if the stack is empty.
\<close>
definition Pop :: "ParameterStack \<Rightarrow> error + (byte list \<times> ParameterStack)" where
  "Pop params = (if params = [] then Inl Underflow else Inr (last params, butlast params))"

text \<open>
  Modelled from the spec: \<open>Pop<T>()\<close> pops an entry and reads a \<open>T\<close> from it; it fails
  with \<open>SizeMismatch\<close> if the entry does not hold a \<open>T\<close>. What the callers under
  test show is kept: \<open>TestSymlink\<close> pushes an \<open>ssize_t\<close> and host_call_test.cc pops
  it with \<open>Pop<int>()\<close> and expects the value 0, so an entry longer than \<open>sizeof(T)\<close>
  is read as its first \<open>sizeof(T)\<close> bytes, and only a shorter one is a mismatch.
\<close>
definition Pop_T :: "nat \<Rightarrow> ParameterStack \<Rightarrow> error + (byte list \<times> ParameterStack)" where
  "Pop_T sizeof_T params =
     (case Pop params of
        Inl e \<Rightarrow> Inl e
      | Inr (v, params1) \<Rightarrow>
          if length v < sizeof_T then Inl SizeMismatch else Inr (take sizeof_T v, params1))"

text \<open>Pushing a list of values in order, and popping \<open>n\<close> times.\<close>
definition push_all :: "byte list list \<Rightarrow> ParameterStack \<Rightarrow> ParameterStack" where
  "push_all vs params = fold PushByCopy vs params"

fun pop_n :: "nat \<Rightarrow> ParameterStack \<Rightarrow> error + (byte list list \<times> ParameterStack)" where
  "pop_n 0 params = Inr ([], params)"
| "pop_n (Suc n) params =
     (case Pop params of
        Inl e \<Rightarrow> Inl e
      | Inr (v, params1) \<Rightarrow>
          (case pop_n n params1 of
             Inl e \<Rightarrow> Inl e
           | Inr (vs, params2) \<Rightarrow> Inr (v # vs, params2)))"

text \<open>
  Modelled from the spec: the two capability-restricted variants of the stack, one whose
  pushed data must reference host-addressable memory and one whose pushed data must
  reference enclave-addressable memory, and an extent, an (address, length) view of
  memory that owns nothing.
\<close>
datatype stack_variant = MustReferenceHostMemory | MustReferenceEnclaveMemory

record Extent =
  extent_address :: addr
  extent_length :: "64 word"

definition extent_bytes :: "(addr \<Rightarrow> byte) \<Rightarrow> Extent \<Rightarrow> byte list" where
  "extent_bytes m e = map (\<lambda>k. m (extent_address e + of_nat k)) [0..<unat (extent_length e)]"

text \<open>
  Modelled from the spec: the address-space constraint of a variant, decided by the
  boundary validators.
\<close>
definition provenance_ok :: "stack_variant \<Rightarrow> EnclaveMemoryLayout \<Rightarrow> Extent \<Rightarrow> bool" where
  "provenance_ok variant l e =
     (case variant of
        MustReferenceHostMemory \<Rightarrow> enc_is_outside_enclave l (extent_address e) (extent_length e)
      | MustReferenceEnclaveMemory \<Rightarrow> enc_is_within_enclave l (extent_address e) (extent_length e))"

text \<open>
  Modelled from the spec: \<open>push_by_copy(extent)\<close> duplicates the bytes the extent
  describes and appends them; it fails with \<open>InvalidArgument\<close> if the variant's
  address-space constraint is violated.
\<close>
definition push_by_copy ::
  "stack_variant \<Rightarrow> EnclaveMemoryLayout \<Rightarrow> (addr \<Rightarrow> byte) \<Rightarrow> Extent \<Rightarrow> ParameterStack
   \<Rightarrow> error + ParameterStack" where
  "push_by_copy variant l m e params =
     (if provenance_ok variant l e then Inr (PushByCopy (extent_bytes m e) params)
      else Inl InvalidArgument)"

subsection \<open>Typed values on the stack\<close>

text \<open>
  A value of a C type travels as its object representation: \<open>sizeof(T)\<close> bytes, least
  significant first, two's complement.
\<close>
fun le_bytes :: "nat \<Rightarrow> nat \<Rightarrow> byte list" where
  "le_bytes 0 v = []"
| "le_bytes (Suc n) v = of_nat (v mod 256) # le_bytes n (v div 256)"

fun le_value :: "byte list \<Rightarrow> nat" where
  "le_value [] = 0"
| "le_value (b # bs) = unat b + 256 * le_value bs"

definition object_repr :: "nat \<Rightarrow> int \<Rightarrow> byte list" where
  "object_repr sizeof_T v = le_bytes sizeof_T (nat (v mod 2 ^ (8 * sizeof_T)))"

definition PushByCopy_T :: "nat \<Rightarrow> int \<Rightarrow> ParameterStack \<Rightarrow> ParameterStack" where
  "PushByCopy_T sizeof_T v params = PushByCopy (object_repr sizeof_T v) params"

text \<open>The sizes of the C types the handlers pop and push (x86-64 Linux, LP64).\<close>
definition sizeof_int :: nat where "sizeof_int = 4"
definition sizeof_unsigned_int :: nat where "sizeof_unsigned_int = 4"
definition sizeof_uint32_t :: nat where "sizeof_uint32_t = 4"
definition sizeof_mode_t :: nat where "sizeof_mode_t = 4"
definition sizeof_pid_t :: nat where "sizeof_pid_t = 4"
definition sizeof_uid_t :: nat where "sizeof_uid_t = 4"
definition sizeof_gid_t :: nat where "sizeof_gid_t = 4"
definition sizeof_off_t :: nat where "sizeof_off_t = 8"
definition sizeof_size_t :: nat where "sizeof_size_t = 8"
definition sizeof_ssize_t :: nat where "sizeof_ssize_t = 8"
definition PATH_MAX :: nat where "PATH_MAX = 4096"

section \<open>The test enclave (test_enclave.cc)\<close>

subsection \<open>Outcomes, the host, and the helpers of the handlers\<close>

text \<open>
  How an invocation of a handler ends: it returns a status and leaves the stack it was
  given as it then is; or the enclave is aborted and nothing returns; or a pop inside it
  fails, which is not a status the handler returns (\<open>int fd = params->Pop<int>();\<close> has
  no return path); or it stores to or reads from a local array outside its bounds (array
  size, offending index), where C++ gives the program no meaning.
\<close>
datatype outcome =
  Returned status ParameterStack
  | Aborted string
  | PopFailed error
  | OutOfBounds nat int

text \<open>The host calls the handlers forward to, by name.\<close>
datatype host_fn =
  enc_untrusted_access
  | enc_untrusted_chmod
  | enc_untrusted_close
  | enc_untrusted_fchmod
  | enc_untrusted_getpid
  | enc_untrusted_getppid
  | enc_untrusted_setsid
  | enc_untrusted_kill
  | enc_untrusted_link
  | enc_untrusted_lseek
  | enc_untrusted_mkdir
  | enc_untrusted_open
  | enc_untrusted_unlink
  | enc_untrusted_umask
  | enc_untrusted_getuid
  | enc_untrusted_getgid
  | enc_untrusted_geteuid
  | enc_untrusted_getegid
  | enc_untrusted_rename
  | enc_untrusted_read
  | enc_untrusted_write
  | enc_untrusted_symlink
  | enc_untrusted_readlink
  | enc_untrusted_truncate
  | enc_untrusted_ftruncate
  | enc_untrusted_rmdir
  | enc_untrusted_socket
  | enc_untrusted_fcntl
  | enc_untrusted_chown
  | enc_untrusted_fchown
  | enc_untrusted_setsockopt
  | enc_untrusted_flock
  | enc_untrusted_fsync
  | enc_untrusted_inotify_init1
  | enc_untrusted_inotify_add_watch
  | enc_untrusted_inotify_rm_watch
  | enc_untrusted_sched_yield
  | enc_untrusted_isatty
  | enc_untrusted_usleep

text \<open>
  The untrusted host, as the handlers see it: the value a host call returns for its
  arguments (object representations, in the order of the C call), the bytes it stores
  through its output buffer, the conversion \<open>FromkLinuxOptionName\<close> (the new level and
  the option name), and the indeterminate bytes a fresh local array holds.
\<close>
record host_env =
  host_ret :: "host_fn \<Rightarrow> byte list list \<Rightarrow> int"
  host_out :: "host_fn \<Rightarrow> byte list list \<Rightarrow> byte list"
  FromkLinuxOptionName :: "byte list \<Rightarrow> byte list \<Rightarrow> byte list \<times> byte list"
  uninitialised :: "nat \<Rightarrow> byte"

definition local_array :: "host_env \<Rightarrow> nat \<Rightarrow> byte list" where
  "local_array env n = map (uninitialised env) [0..<n]"

definition store_at_start :: "byte list \<Rightarrow> byte list \<Rightarrow> byte list" where
  "store_at_start stored buf = stored @ drop (length stored) buf"

text \<open>\<open>strlen\<close> on an array: \<open>None\<close> when no terminator lies within it.\<close>
definition strlen :: "byte list \<Rightarrow> nat option" where
  "strlen buf = (if 0 \<in> set buf then Some (length (takeWhile (\<lambda>b. b \<noteq> 0) buf)) else None)"

text \<open>
  Modelled from the spec: the macro \<open>ASYLO_RETURN_IF_INCORRECT_ARGUMENTS\<close> is not among
  the sources. The spec: handlers validate the argument count first, with a helper that
  fails with \<open>InvalidArgument\<close>; the stack is not touched.
\<close>
definition ASYLO_RETURN_IF_INCORRECT_ARGUMENTS :: "ParameterStack \<Rightarrow> nat \<Rightarrow> outcome \<Rightarrow> outcome" where
  "ASYLO_RETURN_IF_INCORRECT_ARGUMENTS params expected_args rest =
     (if stack_size params \<noteq> expected_args then Returned (Error InvalidArgument) params
      else rest)"

text \<open>
  Modelled from the spec: the macro \<open>ASYLO_RETURN_IF_STACK_EMPTY\<close> is not among the sources
  either. The handlers that take no argument start with it, and host_call_test.cc calls
  them with an empty stack and expects success: the macro lets an empty stack through and
  returns \<open>InvalidArgument\<close> for any other.
\<close>
definition ASYLO_RETURN_IF_STACK_EMPTY :: "ParameterStack \<Rightarrow> outcome \<Rightarrow> outcome" where
  "ASYLO_RETURN_IF_STACK_EMPTY params rest =
     (if params \<noteq> [] then Returned (Error InvalidArgument) params else rest)"

text \<open>
  \<open>auto v = params->Pop();\<close> and \<open>T v = params->Pop<T>();\<close> followed by the rest of the
  handler. The handlers have no branch for a pop that fails: the invocation ends there,
  with no status of the handler's.
\<close>
definition Pop_then :: "ParameterStack \<Rightarrow> (byte list \<Rightarrow> ParameterStack \<Rightarrow> outcome) \<Rightarrow> outcome" where
  "Pop_then params rest =
     (case Pop params of
        Inl e \<Rightarrow> PopFailed e
      | Inr (v, params1) \<Rightarrow> rest v params1)"

definition Pop_T_then ::
  "nat \<Rightarrow> ParameterStack \<Rightarrow> (byte list \<Rightarrow> ParameterStack \<Rightarrow> outcome) \<Rightarrow> outcome" where
  "Pop_T_then sizeof_T params rest =
     (case Pop_T sizeof_T params of
        Inl e \<Rightarrow> PopFailed e
      | Inr (v, params1) \<Rightarrow> rest v params1)"

text \<open>
  Modelled from the spec: \<open>TrustedPrimitives::BestEffortAbort\<close> is not among the sources.
  The spec: it terminates the enclave rather than returning.
\<close>
definition BestEffortAbort :: "string \<Rightarrow> outcome" where
  "BestEffortAbort message = Aborted message"

subsection \<open>The handlers\<close>

text \<open>
  \<open>Abort\<close>: the statement after \<open>BestEffortAbort\<close>, \<open>return OkStatus()\<close>, is never
  reached.
\<close>
definition Abort :: "host_env \<Rightarrow> ParameterStack \<Rightarrow> outcome" where
  "Abort env params =
     ASYLO_RETURN_IF_STACK_EMPTY params
       (BestEffortAbort ''Aborting enclave'')"

definition TestAccess :: "host_env \<Rightarrow> ParameterStack \<Rightarrow> outcome" where
  "TestAccess env params =
     ASYLO_RETURN_IF_INCORRECT_ARGUMENTS params 2
       (Pop_T_then sizeof_int params (\<lambda>mode params.
        (Pop_then params (\<lambda>path_name params.
         Returned OkStatus (PushByCopy_T sizeof_int (host_ret env enc_untrusted_access [path_name, mode]) params)))))"

definition TestChmod :: "host_env \<Rightarrow> ParameterStack \<Rightarrow> outcome" where
  "TestChmod env params =
     ASYLO_RETURN_IF_INCORRECT_ARGUMENTS params 2
       (Pop_T_then sizeof_mode_t params (\<lambda>mode params.
        (Pop_then params (\<lambda>path_name params.
         Returned OkStatus (PushByCopy_T sizeof_int (host_ret env enc_untrusted_chmod [path_name, mode]) params)))))"

definition TestClose :: "host_env \<Rightarrow> ParameterStack \<Rightarrow> outcome" where
  "TestClose env params =
     ASYLO_RETURN_IF_INCORRECT_ARGUMENTS params 1
       (Pop_T_then sizeof_int params (\<lambda>fd params.
        Returned OkStatus (PushByCopy_T sizeof_int (host_ret env enc_untrusted_close [fd]) params)))"

definition TestFchmod :: "host_env \<Rightarrow> ParameterStack \<Rightarrow> outcome" where
  "TestFchmod env params =
     ASYLO_RETURN_IF_INCORRECT_ARGUMENTS params 2
       (Pop_T_then sizeof_mode_t params (\<lambda>mode params.
        (Pop_T_then sizeof_int params (\<lambda>fd params.
         Returned OkStatus (PushByCopy_T sizeof_int (host_ret env enc_untrusted_fchmod [fd, mode]) params)))))"

definition TestGetpid :: "host_env \<Rightarrow> ParameterStack \<Rightarrow> outcome" where
  "TestGetpid env params =
     ASYLO_RETURN_IF_STACK_EMPTY params
       (Returned OkStatus (PushByCopy_T sizeof_pid_t (host_ret env enc_untrusted_getpid []) params))"

definition TestGetPpid :: "host_env \<Rightarrow> ParameterStack \<Rightarrow> outcome" where
  "TestGetPpid env params =
     ASYLO_RETURN_IF_STACK_EMPTY params
       (Returned OkStatus (PushByCopy_T sizeof_pid_t (host_ret env enc_untrusted_getppid []) params))"

definition TestSetSid :: "host_env \<Rightarrow> ParameterStack \<Rightarrow> outcome" where
  "TestSetSid env params =
     ASYLO_RETURN_IF_STACK_EMPTY params
       (Returned OkStatus (PushByCopy_T sizeof_pid_t (host_ret env enc_untrusted_setsid []) params))"

definition TestKill :: "host_env \<Rightarrow> ParameterStack \<Rightarrow> outcome" where
  "TestKill env params =
     ASYLO_RETURN_IF_INCORRECT_ARGUMENTS params 2
       (Pop_T_then sizeof_int params (\<lambda>sig params.
        (Pop_T_then sizeof_pid_t params (\<lambda>pid params.
         Returned OkStatus (PushByCopy_T sizeof_int (host_ret env enc_untrusted_kill [pid, sig]) params)))))"

definition TestLink :: "host_env \<Rightarrow> ParameterStack \<Rightarrow> outcome" where
  "TestLink env params =
     ASYLO_RETURN_IF_INCORRECT_ARGUMENTS params 2
       (Pop_then params (\<lambda>new_path params.
        (Pop_then params (\<lambda>old_path params.
         Returned OkStatus (PushByCopy_T sizeof_int (host_ret env enc_untrusted_link [old_path, new_path]) params)))))"

definition TestLseek :: "host_env \<Rightarrow> ParameterStack \<Rightarrow> outcome" where
  "TestLseek env params =
     ASYLO_RETURN_IF_INCORRECT_ARGUMENTS params 3
       (Pop_T_then sizeof_int params (\<lambda>whence params.
        (Pop_T_then sizeof_off_t params (\<lambda>offset params.
         (Pop_T_then sizeof_int params (\<lambda>fd params.
          Returned OkStatus (PushByCopy_T sizeof_off_t (host_ret env enc_untrusted_lseek [fd, offset, whence]) params)))))))"

definition TestMkdir :: "host_env \<Rightarrow> ParameterStack \<Rightarrow> outcome" where
  "TestMkdir env params =
     ASYLO_RETURN_IF_INCORRECT_ARGUMENTS params 2
       (Pop_T_then sizeof_mode_t params (\<lambda>mode params.
        (Pop_then params (\<lambda>pathname params.
         Returned OkStatus (PushByCopy_T sizeof_int (host_ret env enc_untrusted_mkdir [pathname, mode]) params)))))"

definition TestOpen :: "host_env \<Rightarrow> ParameterStack \<Rightarrow> outcome" where
  "TestOpen env params =
     (if stack_size params = 3 then
        (Pop_T_then sizeof_mode_t params (\<lambda>mode params.
         (Pop_T_then sizeof_int params (\<lambda>flags params.
          (Pop_then params (\<lambda>pathname params.
           Returned OkStatus
             (PushByCopy_T sizeof_int (host_ret env enc_untrusted_open [pathname, flags, mode])
                params)))))))
      else if stack_size params = 2 then
        (Pop_T_then sizeof_int params (\<lambda>flags params.
         (Pop_then params (\<lambda>pathname params.
          Returned OkStatus
            (PushByCopy_T sizeof_int (host_ret env enc_untrusted_open [pathname, flags])
               params)))))
      else Returned (Error InvalidArgument) params)"

definition TestUnlink :: "host_env \<Rightarrow> ParameterStack \<Rightarrow> outcome" where
  "TestUnlink env params =
     ASYLO_RETURN_IF_INCORRECT_ARGUMENTS params 1
       (Pop_then params (\<lambda>pathname params.
        Returned OkStatus (PushByCopy_T sizeof_int (host_ret env enc_untrusted_unlink [pathname]) params)))"

definition TestUmask :: "host_env \<Rightarrow> ParameterStack \<Rightarrow> outcome" where
  "TestUmask env params =
     ASYLO_RETURN_IF_INCORRECT_ARGUMENTS params 1
       (Pop_T_then sizeof_mode_t params (\<lambda>mask params.
        Returned OkStatus (PushByCopy_T sizeof_mode_t (host_ret env enc_untrusted_umask [mask]) params)))"

definition TestGetuid :: "host_env \<Rightarrow> ParameterStack \<Rightarrow> outcome" where
  "TestGetuid env params =
     ASYLO_RETURN_IF_STACK_EMPTY params
       (Returned OkStatus (PushByCopy_T sizeof_uid_t (host_ret env enc_untrusted_getuid []) params))"

definition TestGetgid :: "host_env \<Rightarrow> ParameterStack \<Rightarrow> outcome" where
  "TestGetgid env params =
     ASYLO_RETURN_IF_STACK_EMPTY params
       (Returned OkStatus (PushByCopy_T sizeof_gid_t (host_ret env enc_untrusted_getgid []) params))"

definition TestGeteuid :: "host_env \<Rightarrow> ParameterStack \<Rightarrow> outcome" where
  "TestGeteuid env params =
     ASYLO_RETURN_IF_STACK_EMPTY params
       (Returned OkStatus (PushByCopy_T sizeof_uid_t (host_ret env enc_untrusted_geteuid []) params))"

definition TestGetegid :: "host_env \<Rightarrow> ParameterStack \<Rightarrow> outcome" where
  "TestGetegid env params =
     ASYLO_RETURN_IF_STACK_EMPTY params
       (Returned OkStatus (PushByCopy_T sizeof_gid_t (host_ret env enc_untrusted_getegid []) params))"

definition TestRename :: "host_env \<Rightarrow> ParameterStack \<Rightarrow> outcome" where
  "TestRename env params =
     ASYLO_RETURN_IF_INCORRECT_ARGUMENTS params 2
       (Pop_then params (\<lambda>newpath params.
        (Pop_then params (\<lambda>oldpath params.
         Returned OkStatus (PushByCopy_T sizeof_int (host_ret env enc_untrusted_rename [oldpath, newpath]) params)))))"

text \<open>
  \<open>TestRead\<close> reads into \<open>char read_buf[20]\<close>, a local array that is not initialised.
  The host call stores the bytes it read, at most \<open>count\<close> of them, from the start of
  the array; \<open>strlen(read_buf) + 1\<close> bytes of the array are then pushed.
\<close>
definition TestRead :: "host_env \<Rightarrow> ParameterStack \<Rightarrow> outcome" where
  "TestRead env params =
     ASYLO_RETURN_IF_INCORRECT_ARGUMENTS params 2
       (Pop_T_then sizeof_size_t params (\<lambda>count params.
        (Pop_T_then sizeof_int params (\<lambda>fd params.
         (let stored = take (le_value count) (host_out env enc_untrusted_read [fd, count])
          in if 20 < length stored then OutOfBounds 20 (int (length stored) - 1)
             else
               (let read_buf = store_at_start stored (local_array env 20);
                    params = PushByCopy_T sizeof_ssize_t
                               (host_ret env enc_untrusted_read [fd, count]) params
                in case strlen read_buf of
                     None \<Rightarrow> OutOfBounds 20 20
                   | Some n \<Rightarrow> Returned OkStatus (PushByCopy (take (n + 1) read_buf) params)))))))"

definition TestWrite :: "host_env \<Rightarrow> ParameterStack \<Rightarrow> outcome" where
  "TestWrite env params =
     ASYLO_RETURN_IF_INCORRECT_ARGUMENTS params 3
       (Pop_T_then sizeof_size_t params (\<lambda>count params.
        (Pop_then params (\<lambda>write_buf params.
         (Pop_T_then sizeof_int params (\<lambda>fd params.
          Returned OkStatus (PushByCopy_T sizeof_ssize_t (host_ret env enc_untrusted_write [fd, write_buf, count]) params)))))))"

definition TestSymlink :: "host_env \<Rightarrow> ParameterStack \<Rightarrow> outcome" where
  "TestSymlink env params =
     ASYLO_RETURN_IF_INCORRECT_ARGUMENTS params 2
       (Pop_then params (\<lambda>linkpath params.
        (Pop_then params (\<lambda>target params.
         Returned OkStatus (PushByCopy_T sizeof_ssize_t (host_ret env enc_untrusted_symlink [target, linkpath]) params)))))"

text \<open>
  \<open>TestReadlink\<close> reads into \<open>char buf[PATH_MAX]\<close> with the bound \<open>sizeof(buf) - 1\<close>,
  pushes the length, stores the terminator at \<open>buf[len]\<close> and pushes the string.
\<close>
definition TestReadlink :: "host_env \<Rightarrow> ParameterStack \<Rightarrow> outcome" where
  "TestReadlink env params =
     ASYLO_RETURN_IF_INCORRECT_ARGUMENTS params 1
       (Pop_then params (\<lambda>pathname params.
        (let bufsize = object_repr sizeof_size_t (int PATH_MAX - 1);
             stored = take (PATH_MAX - 1)
                        (host_out env enc_untrusted_readlink [pathname, bufsize]);
             buf = store_at_start stored (local_array env PATH_MAX);
             len = host_ret env enc_untrusted_readlink [pathname, bufsize];
             params = PushByCopy_T sizeof_ssize_t len params
         in if len < 0 \<or> int PATH_MAX \<le> len then OutOfBounds PATH_MAX len
            else
              (let buf = buf[nat len := 0]
               in case strlen buf of
                    None \<Rightarrow> OutOfBounds PATH_MAX (int PATH_MAX)
                  | Some n \<Rightarrow> Returned OkStatus (PushByCopy (take (n + 1) buf) params)))))"

definition TestTruncate :: "host_env \<Rightarrow> ParameterStack \<Rightarrow> outcome" where
  "TestTruncate env params =
     ASYLO_RETURN_IF_INCORRECT_ARGUMENTS params 2
       (Pop_T_then sizeof_off_t params (\<lambda>len params.
        (Pop_then params (\<lambda>path params.
         Returned OkStatus (PushByCopy_T sizeof_int (host_ret env enc_untrusted_truncate [path, len]) params)))))"

definition TestFTruncate :: "host_env \<Rightarrow> ParameterStack \<Rightarrow> outcome" where
  "TestFTruncate env params =
     ASYLO_RETURN_IF_INCORRECT_ARGUMENTS params 2
       (Pop_T_then sizeof_off_t params (\<lambda>len params.
        (Pop_T_then sizeof_int params (\<lambda>fd params.
         Returned OkStatus (PushByCopy_T sizeof_int (host_ret env enc_untrusted_ftruncate [fd, len]) params)))))"

definition TestRmdir :: "host_env \<Rightarrow> ParameterStack \<Rightarrow> outcome" where
  "TestRmdir env params =
     ASYLO_RETURN_IF_INCORRECT_ARGUMENTS params 1
       (Pop_then params (\<lambda>path params.
        Returned OkStatus (PushByCopy_T sizeof_int (host_ret env enc_untrusted_rmdir [path]) params)))"

definition TestSocket :: "host_env \<Rightarrow> ParameterStack \<Rightarrow> outcome" where
  "TestSocket env params =
     ASYLO_RETURN_IF_INCORRECT_ARGUMENTS params 3
       (Pop_T_then sizeof_int params (\<lambda>protocol params.
        (Pop_T_then sizeof_int params (\<lambda>type params.
         (Pop_T_then sizeof_int params (\<lambda>domain params.
          Returned OkStatus (PushByCopy_T sizeof_int (host_ret env enc_untrusted_socket [domain, type, protocol]) params)))))))"

definition TestFcntl :: "host_env \<Rightarrow> ParameterStack \<Rightarrow> outcome" where
  "TestFcntl env params =
     ASYLO_RETURN_IF_INCORRECT_ARGUMENTS params 3
       (Pop_T_then sizeof_int params (\<lambda>arg params.
        (Pop_T_then sizeof_int params (\<lambda>cmd params.
         (Pop_T_then sizeof_int params (\<lambda>fd params.
          Returned OkStatus (PushByCopy_T sizeof_int (host_ret env enc_untrusted_fcntl [fd, cmd, arg]) params)))))))"

definition TestChown :: "host_env \<Rightarrow> ParameterStack \<Rightarrow> outcome" where
  "TestChown env params =
     ASYLO_RETURN_IF_INCORRECT_ARGUMENTS params 3
       (Pop_T_then sizeof_gid_t params (\<lambda>group params.
        (Pop_T_then sizeof_uid_t params (\<lambda>owner params.
         (Pop_then params (\<lambda>pathname params.
          Returned OkStatus (PushByCopy_T sizeof_int (host_ret env enc_untrusted_chown [pathname, owner, group]) params)))))))"

definition TestFChown :: "host_env \<Rightarrow> ParameterStack \<Rightarrow> outcome" where
  "TestFChown env params =
     ASYLO_RETURN_IF_INCORRECT_ARGUMENTS params 3
       (Pop_T_then sizeof_gid_t params (\<lambda>group params.
        (Pop_T_then sizeof_uid_t params (\<lambda>owner params.
         (Pop_T_then sizeof_int params (\<lambda>fd params.
          Returned OkStatus (PushByCopy_T sizeof_int (host_ret env enc_untrusted_fchown [fd, owner, group]) params)))))))"

definition TestSetsockopt :: "host_env \<Rightarrow> ParameterStack \<Rightarrow> outcome" where
  "TestSetsockopt env params =
     ASYLO_RETURN_IF_INCORRECT_ARGUMENTS params 4
       (Pop_T_then sizeof_int params (\<lambda>option params.
        (Pop_T_then sizeof_int params (\<lambda>klinux_optname params.
         (Pop_T_then sizeof_int params (\<lambda>level params.
          (Pop_T_then sizeof_int params (\<lambda>sockfd params.
           (case FromkLinuxOptionName env level klinux_optname of
              (level, optname) \<Rightarrow>
                Returned OkStatus
                  (PushByCopy_T sizeof_int
                     (host_ret env enc_untrusted_setsockopt
                        [sockfd, level, optname, option, object_repr sizeof_int (int sizeof_int)])
                     params))))))))))"

definition TestFlock :: "host_env \<Rightarrow> ParameterStack \<Rightarrow> outcome" where
  "TestFlock env params =
     ASYLO_RETURN_IF_INCORRECT_ARGUMENTS params 2
       (Pop_T_then sizeof_int params (\<lambda>operation params.
        (Pop_T_then sizeof_int params (\<lambda>fd params.
         Returned OkStatus (PushByCopy_T sizeof_int (host_ret env enc_untrusted_flock [fd, operation]) params)))))"

definition TestFsync :: "host_env \<Rightarrow> ParameterStack \<Rightarrow> outcome" where
  "TestFsync env params =
     ASYLO_RETURN_IF_INCORRECT_ARGUMENTS params 1
       (Pop_T_then sizeof_int params (\<lambda>fd params.
        Returned OkStatus (PushByCopy_T sizeof_int (host_ret env enc_untrusted_fsync [fd]) params)))"

definition TestInotifyInit1 :: "host_env \<Rightarrow> ParameterStack \<Rightarrow> outcome" where
  "TestInotifyInit1 env params =
     ASYLO_RETURN_IF_INCORRECT_ARGUMENTS params 1
       (Pop_T_then sizeof_int params (\<lambda>flags params.
        Returned OkStatus (PushByCopy_T sizeof_int (host_ret env enc_untrusted_inotify_init1 [flags]) params)))"

definition TestInotifyAddWatch :: "host_env \<Rightarrow> ParameterStack \<Rightarrow> outcome" where
  "TestInotifyAddWatch env params =
     ASYLO_RETURN_IF_INCORRECT_ARGUMENTS params 3
       (Pop_T_then sizeof_uint32_t params (\<lambda>mask params.
        (Pop_then params (\<lambda>pathname params.
         (Pop_T_then sizeof_int params (\<lambda>fd params.
          Returned OkStatus (PushByCopy_T sizeof_int (host_ret env enc_untrusted_inotify_add_watch [fd, pathname, mask]) params)))))))"

definition TestInotifyRmWatch :: "host_env \<Rightarrow> ParameterStack \<Rightarrow> outcome" where
  "TestInotifyRmWatch env params =
     ASYLO_RETURN_IF_INCORRECT_ARGUMENTS params 2
       (Pop_T_then sizeof_int params (\<lambda>wd params.
        (Pop_T_then sizeof_int params (\<lambda>fd params.
         Returned OkStatus (PushByCopy_T sizeof_int (host_ret env enc_untrusted_inotify_rm_watch [fd, wd]) params)))))"

definition TestSchedYield :: "host_env \<Rightarrow> ParameterStack \<Rightarrow> outcome" where
  "TestSchedYield env params =
     ASYLO_RETURN_IF_STACK_EMPTY params
       (Returned OkStatus (PushByCopy_T sizeof_int (host_ret env enc_untrusted_sched_yield []) params))"

definition TestIsAtty :: "host_env \<Rightarrow> ParameterStack \<Rightarrow> outcome" where
  "TestIsAtty env params =
     ASYLO_RETURN_IF_INCORRECT_ARGUMENTS params 1
       (Pop_T_then sizeof_int params (\<lambda>fd params.
        Returned OkStatus (PushByCopy_T sizeof_int (host_ret env enc_untrusted_isatty [fd]) params)))"

definition TestUSleep :: "host_env \<Rightarrow> ParameterStack \<Rightarrow> outcome" where
  "TestUSleep env params =
     ASYLO_RETURN_IF_INCORRECT_ARGUMENTS params 1
       (Pop_T_then sizeof_unsigned_int params (\<lambda>usec params.
        Returned OkStatus (PushByCopy_T sizeof_int (host_ret env enc_untrusted_usleep [usec]) params)))"

section \<open>Handler registries and dispatch\<close>

text \<open>
  Modelled from the spec: the entry-handler table of the enclave and the exit-call
  provider of the host (\<open>TrustedPrimitives::RegisterEntryHandler\<close>, \<open>DispatchTable\<close>) are
  not among the sources. The spec: a registry maps a selector to a handler;
  \<open>register\<close> fails with \<open>AlreadyRegistered\<close> if the selector is already bound, and with
  \<open>ReservedSelector\<close> if the selector lies in a reserved sub-range that is not permitted
  for the caller's registration path (application code may register neither in the
  runtime range nor in the host-call range; only the runtime and the host-call subsystem
  may); \<open>dispatch\<close> fails with \<open>NotFound\<close> if the selector is absent and invokes the
  handler otherwise.
\<close>
type_synonym 'h registry = "selector \<rightharpoonup> 'h"

datatype registrant = ApplicationCode | RuntimeSubsystem | HostCallSubsystem

text \<open>
  Modelled from the spec: which selectors a registration path may bind. The host-call
  sub-range is open to the host-call subsystem only, the rest of the range below
  \<open>kSelectorUser\<close> to the runtime only, the user range to everyone.
\<close>
definition permitted :: "registrant \<Rightarrow> selector \<Rightarrow> bool" where
  "permitted who s =
     (if is_host_call_selector s then who = HostCallSubsystem
      else if is_reserved_selector s then who = RuntimeSubsystem
      else True)"

text \<open>
  Modelled from the spec: \<open>register(selector, handler)\<close>, with the two failures in the
  order the spec gives them. A failed registration leaves the registry as it is.
\<close>
definition register_handler ::
  "registrant \<Rightarrow> selector \<Rightarrow> 'h \<Rightarrow> 'h registry \<Rightarrow> error + 'h registry" where
  "register_handler who s h reg =
     (if reg s \<noteq> None then Inl AlreadyRegistered
      else if \<not> permitted who s then Inl ReservedSelector
      else Inr (reg(s \<mapsto> h)))"

type_synonym handler = "ParameterStack \<Rightarrow> outcome"

text \<open>
  Modelled from the spec: \<open>dispatch(selector, stack)\<close> fails with \<open>NotFound\<close> if the
  selector is absent, without invoking any handler, and invokes the handler otherwise.
\<close>
definition dispatch :: "handler registry \<Rightarrow> selector \<Rightarrow> ParameterStack \<Rightarrow> outcome" where
  "dispatch reg s params =
     (case reg s of
        None \<Rightarrow> Returned (Error NotFound) params
      | Some h \<Rightarrow> h params)"

text \<open>
  Modelled from the spec: \<open>TrustedPrimitives::RegisterEntryHandler\<close>, as application
  code inside the enclave calls it (test_enclave.cc).
\<close>
definition RegisterEntryHandler :: "selector \<Rightarrow> handler \<Rightarrow> handler registry \<Rightarrow> error + handler registry" where
  "RegisterEntryHandler s h reg = register_handler ApplicationCode s h reg"

text \<open>
  Modelled from the spec: \<open>RegisterExitHandler\<close> of the exit-call provider, as the
  driver of an application calls it (hello_driver.cc).
\<close>
definition RegisterExitHandler :: "selector \<Rightarrow> handler \<Rightarrow> handler registry \<Rightarrow> error + handler registry" where
  "RegisterExitHandler s h reg = register_handler ApplicationCode s h reg"

subsection \<open>Initialisation of the test enclave\<close>

text \<open>
  Modelled from the spec: enclave_test_selectors.h is not among the sources. The selectors
  of the test enclave are taken to be distinct selectors of the user range, numbered in
  the order in which \<open>asylo_enclave_init\<close> registers them.
\<close>
definition kAbortEnclaveSelector :: selector where "kAbortEnclaveSelector = kSelectorUser + 1"
definition kTestAccess :: selector where "kTestAccess = kSelectorUser + 2"
definition kTestChmod :: selector where "kTestChmod = kSelectorUser + 3"
definition kTestClose :: selector where "kTestClose = kSelectorUser + 4"
definition kTestFchmod :: selector where "kTestFchmod = kSelectorUser + 5"
definition kTestGetPid :: selector where "kTestGetPid = kSelectorUser + 6"
definition kTestGetPpid :: selector where "kTestGetPpid = kSelectorUser + 7"
definition kTestSetSid :: selector where "kTestSetSid = kSelectorUser + 8"
definition kTestKill :: selector where "kTestKill = kSelectorUser + 9"
definition kTestLink :: selector where "kTestLink = kSelectorUser + 10"
definition kTestLseek :: selector where "kTestLseek = kSelectorUser + 11"
definition kTestMkdir :: selector where "kTestMkdir = kSelectorUser + 12"
definition kTestOpen :: selector where "kTestOpen = kSelectorUser + 13"
definition kTestUnlink :: selector where "kTestUnlink = kSelectorUser + 14"
definition kTestUmask :: selector where "kTestUmask = kSelectorUser + 15"
definition kTestGetUid :: selector where "kTestGetUid = kSelectorUser + 16"
definition kTestGetGid :: selector where "kTestGetGid = kSelectorUser + 17"
definition kTestGetEuid :: selector where "kTestGetEuid = kSelectorUser + 18"
definition kTestGetEgid :: selector where "kTestGetEgid = kSelectorUser + 19"
definition kTestRename :: selector where "kTestRename = kSelectorUser + 20"
definition kTestRead :: selector where "kTestRead = kSelectorUser + 21"
definition kTestWrite :: selector where "kTestWrite = kSelectorUser + 22"
definition kTestSymlink :: selector where "kTestSymlink = kSelectorUser + 23"
definition kTestReadLink :: selector where "kTestReadLink = kSelectorUser + 24"
definition kTestTruncate :: selector where "kTestTruncate = kSelectorUser + 25"
definition kTestFTruncate :: selector where "kTestFTruncate = kSelectorUser + 26"
definition kTestRmdir :: selector where "kTestRmdir = kSelectorUser + 27"
definition kTestSocket :: selector where "kTestSocket = kSelectorUser + 28"
definition kTestFcntl :: selector where "kTestFcntl = kSelectorUser + 29"
definition kTestChown :: selector where "kTestChown = kSelectorUser + 30"
definition kTestFChown :: selector where "kTestFChown = kSelectorUser + 31"
definition kTestSetSockOpt :: selector where "kTestSetSockOpt = kSelectorUser + 32"
definition kTestFlock :: selector where "kTestFlock = kSelectorUser + 33"
definition kTestFsync :: selector where "kTestFsync = kSelectorUser + 34"
definition kTestInotifyInit1 :: selector where "kTestInotifyInit1 = kSelectorUser + 35"
definition kTestInotifyAddWatch :: selector where "kTestInotifyAddWatch = kSelectorUser + 36"
definition kTestInotifyRmWatch :: selector where "kTestInotifyRmWatch = kSelectorUser + 37"
definition kTestSchedYield :: selector where "kTestSchedYield = kSelectorUser + 38"
definition kTestIsAtty :: selector where "kTestIsAtty = kSelectorUser + 39"
definition kTestUSleep :: selector where "kTestUSleep = kSelectorUser + 40"

text \<open>
  \<open>ASYLO_RETURN_IF_ERROR(RegisterEntryHandler(...))\<close>, statement after statement: the
  first failure is returned and the remaining registrations are not made.
\<close>
fun register_entries :: "(selector \<times> handler) list \<Rightarrow> handler registry \<Rightarrow> status \<times> handler registry" where
  "register_entries [] reg = (OkStatus, reg)"
| "register_entries ((s, h) # rest) reg =
     (case RegisterEntryHandler s h reg of
        Inl e \<Rightarrow> (Error e, reg)
      | Inr reg1 \<Rightarrow> register_entries rest reg1)"

definition test_entries :: "host_env \<Rightarrow> (selector \<times> handler) list" where
  "test_entries env =
     [(kAbortEnclaveSelector, Abort env),
      (kTestAccess, TestAccess env),
      (kTestChmod, TestChmod env),
      (kTestClose, TestClose env),
      (kTestFchmod, TestFchmod env),
      (kTestGetPid, TestGetpid env),
      (kTestGetPpid, TestGetPpid env),
      (kTestSetSid, TestSetSid env),
      (kTestKill, TestKill env),
      (kTestLink, TestLink env),
      (kTestLseek, TestLseek env),
      (kTestMkdir, TestMkdir env),
      (kTestOpen, TestOpen env),
      (kTestUnlink, TestUnlink env),
      (kTestUmask, TestUmask env),
      (kTestGetUid, TestGetuid env),
      (kTestGetGid, TestGetgid env),
      (kTestGetEuid, TestGeteuid env),
      (kTestGetEgid, TestGetegid env),
      (kTestRename, TestRename env),
      (kTestRead, TestRead env),
      (kTestWrite, TestWrite env),
      (kTestSymlink, TestSymlink env),
      (kTestReadLink, TestReadlink env),
      (kTestTruncate, TestTruncate env),
      (kTestFTruncate, TestFTruncate env),
      (kTestRmdir, TestRmdir env),
      (kTestSocket, TestSocket env),
      (kTestFcntl, TestFcntl env),
      (kTestChown, TestChown env),
      (kTestFChown, TestFChown env),
      (kTestSetSockOpt, TestSetsockopt env),
      (kTestFlock, TestFlock env),
      (kTestFsync, TestFsync env),
      (kTestInotifyInit1, TestInotifyInit1 env),
      (kTestInotifyAddWatch, TestInotifyAddWatch env),
      (kTestInotifyRmWatch, TestInotifyRmWatch env),
      (kTestSchedYield, TestSchedYield env),
      (kTestIsAtty, TestIsAtty env),
      (kTestUSleep, TestUSleep env)]"

definition asylo_enclave_init :: "host_env \<Rightarrow> handler registry \<Rightarrow> status \<times> handler registry" where
  "asylo_enclave_init env reg = register_entries (test_entries env) reg"

text \<open>
  The number of result values of each entry point, as host_call_test.cc expects it after
  a successful call (\<open>ASSERT_THAT(params.size(), Eq(...))\<close>): the return value, and for
  \<open>kTestRead\<close> and \<open>kTestReadLink\<close> the buffer as well. The abort entry point has none.
\<close>
definition declared_results :: "selector \<Rightarrow> nat" where
  "declared_results s =
     (if s = kAbortEnclaveSelector then 0
      else if s = kTestRead \<or> s = kTestReadLink then 2
      else 1)"

text \<open>
  The argument counts each handler accepts, as its first statement checks them: the
  number given to \<open>ASYLO_RETURN_IF_INCORRECT_ARGUMENTS\<close>, none for the handlers that
  start with \<open>ASYLO_RETURN_IF_STACK_EMPTY\<close>, and 3 or 2 for \<open>TestOpen\<close>.
\<close>
definition accepted_argument_counts :: "(selector \<times> nat list) list" where
  "accepted_argument_counts =
     [(kAbortEnclaveSelector, [0]),
      (kTestAccess, [2]),
      (kTestChmod, [2]),
      (kTestClose, [1]),
      (kTestFchmod, [2]),
      (kTestGetPid, [0]),
      (kTestGetPpid, [0]),
      (kTestSetSid, [0]),
      (kTestKill, [2]),
      (kTestLink, [2]),
      (kTestLseek, [3]),
      (kTestMkdir, [2]),
      (kTestOpen, [3, 2]),
      (kTestUnlink, [1]),
      (kTestUmask, [1]),
      (kTestGetUid, [0]),
      (kTestGetGid, [0]),
      (kTestGetEuid, [0]),
      (kTestGetEgid, [0]),
      (kTestRename, [2]),
      (kTestRead, [2]),
      (kTestWrite, [3]),
      (kTestSymlink, [2]),
      (kTestReadLink, [1]),
      (kTestTruncate, [2]),
      (kTestFTruncate, [2]),
      (kTestRmdir, [1]),
      (kTestSocket, [3]),
      (kTestFcntl, [3]),
      (kTestChown, [3]),
      (kTestFChown, [3]),
      (kTestSetSockOpt, [4]),
      (kTestFlock, [2]),
      (kTestFsync, [1]),
      (kTestInotifyInit1, [1]),
      (kTestInotifyAddWatch, [3]),
      (kTestInotifyRmWatch, [2]),
      (kTestSchedYield, [0]),
      (kTestIsAtty, [1]),
      (kTestUSleep, [1])]"

definition accepts :: "selector \<Rightarrow> nat \<Rightarrow> bool" where
  "accepts s n =
     (case map_of accepted_argument_counts s of
        None \<Rightarrow> False
      | Some counts \<Rightarrow> n \<in> set counts)"

section \<open>Client\<close>

text \<open>
  Modelled from the spec: the class \<open>Client\<close> (untrusted_primitives.h) is not among the
  sources; host_call_test.cc and hello_driver.cc call it. The spec: a client holds the
  handle to the isolated context, the exit-call provider and the lifecycle state
  \<open>Loaded\<close> or \<open>Closed\<close>; \<open>EnclaveCall\<close> fails immediately with \<open>Closed\<close> on a closed
  client and otherwise crosses the boundary, where the selector is dispatched, and hands
  the resulting stack and status back; \<open>IsClosed\<close> is a query; \<open>Destroy\<close> moves the
  client to \<open>Closed\<close> and is a no-op on a closed client. The flattening of the stack into
  the wire buffer and back is not observable by the caller and is left out, as are the
  threads the concurrency gate counts.
\<close>
datatype lifecycle = LifecycleLoaded | LifecycleClosed

record enclave_instance =
  entry_table :: "handler registry"
  memory_layout :: EnclaveMemoryLayout

record Client =
  handle :: enclave_instance
  exit_call_provider :: "handler registry"
  lifecycle_state :: lifecycle

text \<open>Modelled from the spec: \<open>IsClosed()\<close>, a pure query.\<close>
definition IsClosed :: "Client \<Rightarrow> bool" where
  "IsClosed c = (lifecycle_state c = LifecycleClosed)"

text \<open>
  Modelled from the spec: \<open>Destroy()\<close> moves the client to \<open>Closed\<close>; on a closed
  client it is a no-op.
\<close>
definition Destroy :: "Client \<Rightarrow> Client" where
  "Destroy c = (if IsClosed c then c else c\<lparr>lifecycle_state := LifecycleClosed\<rparr>)"

text \<open>
  Modelled from the spec: \<open>EnclaveCall(selector, stack)\<close> fails immediately with
  \<open>Closed\<close> on a closed client; otherwise the selector is dispatched inside the enclave
  on the stack, and the outcome is the caller's.
\<close>
definition EnclaveCall :: "Client \<Rightarrow> selector \<Rightarrow> ParameterStack \<Rightarrow> outcome" where
  "EnclaveCall c s params =
     (if IsClosed c then Returned (Error Closed) params
      else dispatch (entry_table (handle c)) s params)"




text \<open>
  Modelled from the spec: \<open>TestBackend::LoadTestEnclaveOrDie\<close> is not among the sources.
  The client it gives for the test enclave is loaded, with the entry table that
  \<open>asylo_enclave_init\<close> builds from an empty one, the layout of the instance and the
  exit-call provider it was given.
\<close>
definition LoadTestEnclave :: "host_env \<Rightarrow> EnclaveMemoryLayout \<Rightarrow> handler registry \<Rightarrow> Client" where
  "LoadTestEnclave env layout provider =
     \<lparr>handle = \<lparr>entry_table = snd (asylo_enclave_init env Map.empty), memory_layout = layout\<rparr>,
      exit_call_provider = provider,
      lifecycle_state = LifecycleLoaded\<rparr>"

section \<open>A concrete host and enclave\<close>

text \<open>
  The file of \<open>HostCallTest.TestRead\<close>: the string "this is what's being read!" with
  its terminator, 27 bytes.
\<close>
definition test_file_content :: "byte list" where
  "test_file_content =
     [116, 104, 105, 115, 32, 105, 115, 32, 119, 104, 97, 116, 39, 115, 32, 98, 101, 105, 110, 103, 32, 114, 101, 97, 100, 33, 0]"

text \<open>
  A host on which \<open>read\<close> delivers that file and every other call returns 0; fresh
  local arrays hold zeros.
\<close>
definition test_host :: host_env where
  "test_host =
     \<lparr>host_ret = (\<lambda>f args. if f = enc_untrusted_read then 27 else 0),
      host_out = (\<lambda>f args. if f = enc_untrusted_read then test_file_content else []),
      FromkLinuxOptionName = (\<lambda>level klinux_optname. (level, klinux_optname)),
      uninitialised = (\<lambda>i. 0)\<rparr>"

text \<open>An enclave of a few small regions.\<close>
definition test_layout :: EnclaveMemoryLayout where
  "test_layout =
     \<lparr>data_base = 1000, data_size = 100,
      bss_base = 1100, bss_size = 100,
      heap_base = 2000, heap_size = 500,
      thread_base = 3000, thread_size = 100,
      stack_base = 5000, stack_limit = 4000,
      reserved_data_base = 6000, reserved_data_size = 10,
      reserved_bss_base = 6010, reserved_bss_size = 10,
      reserved_heap_base = 7000, reserved_heap_size = 100\<rparr>"

section \<open>The stack is last-in-first-out\<close>

lemma Pop_PushByCopy: "Pop (PushByCopy v params) = Inr (v, params)"
  by (simp add: Pop_def PushByCopy_def)

lemma pop_n_append_rev: "pop_n (length vs) (params @ rev vs) = Inr (vs, params)"
proof (induction vs arbitrary: params)
  case Nil
  show ?case by simp
next
  case (Cons v vs)
  have "Pop (params @ rev (v # vs)) = Inr (v, params @ rev vs)"
    by (simp add: Pop_def butlast_append)
  then show ?case using Cons.IH by simp
qed

lemma push_all_append: "push_all vs params = params @ vs"
  unfolding push_all_def by (induction vs arbitrary: params) (simp_all add: PushByCopy_def)

lemma pop_n_push_all: "pop_n (length vs) (push_all vs params) = Inr (rev vs, params)"
  using pop_n_append_rev [of "rev vs" params] by (simp add: push_all_append)

lemma pop_n_underflow: "length params < n \<Longrightarrow> pop_n n params = Inl Underflow"
proof (induction n arbitrary: params)
  case 0
  then show ?case by simp
next
  case (Suc n)
  show ?case
  proof (cases "params = []")
    case True
    then show ?thesis by (simp add: Pop_def)
  next
    case False
    then have "length (butlast params) < n" using Suc.prems
      by (cases params rule: rev_cases) auto
    then have "pop_n n (butlast params) = Inl Underflow" by (rule Suc.IH)
    then show ?thesis using False by (simp add: Pop_def)
  qed
qed

lemma pop_n_inside: "pop_n n params = Inr (vs, rest) \<Longrightarrow> params = rest @ rev vs \<and> length vs = n"
proof (induction n arbitrary: params vs)
  case 0
  then show ?case by simp
next
  case (Suc n)
  from Suc.prems have ne: "params \<noteq> []" by (auto simp: Pop_def split: if_splits)
  from Suc.prems ne obtain vs' where r: "pop_n n (butlast params) = Inr (vs', rest)"
    and vs: "vs = last params # vs'"
    by (auto simp: Pop_def split: sum.splits)
  from Suc.IH [OF r] have "butlast params = rest @ rev vs'" "length vs' = n" by simp_all
  then show ?case using ne vs
    by (metis append_assoc append_butlast_last_id length_Cons rev.simps(2))
qed

lemma length_le_bytes: "length (le_bytes n v) = n"
  by (induction n arbitrary: v) simp_all

lemma length_object_repr: "length (object_repr n v) = n"
  by (simp add: object_repr_def length_le_bytes)

lemma butlast_eq_Nil_iff: "(butlast xs = []) = (length xs \<le> Suc 0)"
  by (cases xs rule: rev_cases) auto

lemma le_bytes_numeral:
  "le_bytes (numeral k) v = of_nat (v mod 256) # le_bytes (pred_numeral k) (v div 256)"
proof -
  have "le_bytes (Suc (pred_numeral k)) v
          = of_nat (v mod 256) # le_bytes (pred_numeral k) (v div 256)"
    by (rule le_bytes.simps(2))
  then show ?thesis by (simp only: numeral_eq_Suc [of k])
qed

section \<open>What the handlers return\<close>

lemmas handler_helper_defs =
  ASYLO_RETURN_IF_INCORRECT_ARGUMENTS_def ASYLO_RETURN_IF_STACK_EMPTY_def
  Pop_then_def Pop_T_then_def Pop_T_def Pop_def PushByCopy_T_def PushByCopy_def
  stack_size_def BestEffortAbort_def

lemmas test_selector_defs =
  kAbortEnclaveSelector_def kTestAccess_def kTestChmod_def kTestClose_def kTestFchmod_def
  kTestGetPid_def kTestGetPpid_def kTestSetSid_def kTestKill_def kTestLink_def
  kTestLseek_def kTestMkdir_def kTestOpen_def kTestUnlink_def kTestUmask_def
  kTestGetUid_def kTestGetGid_def kTestGetEuid_def kTestGetEgid_def kTestRename_def
  kTestRead_def kTestWrite_def kTestSymlink_def kTestReadLink_def kTestTruncate_def
  kTestFTruncate_def kTestRmdir_def kTestSocket_def kTestFcntl_def kTestChown_def
  kTestFChown_def kTestSetSockOpt_def kTestFlock_def kTestFsync_def kTestInotifyInit1_def
  kTestInotifyAddWatch_def kTestInotifyRmWatch_def kTestSchedYield_def kTestIsAtty_def
  kTestUSleep_def

lemma TestAccess_pushed:
  "TestAccess env (push_all [path, object_repr sizeof_int mode] [])
   = Returned OkStatus
       [object_repr sizeof_int (host_ret env enc_untrusted_access [path, object_repr sizeof_int mode])]"
  by (simp add: TestAccess_def push_all_def PushByCopy_def ASYLO_RETURN_IF_INCORRECT_ARGUMENTS_def
      stack_size_def Pop_T_then_def Pop_then_def Pop_T_def Pop_def PushByCopy_T_def length_object_repr)

lemma TestOpen_bad_count:
  "stack_size params \<noteq> 2 \<Longrightarrow> stack_size params \<noteq> 3 \<Longrightarrow> TestOpen env params = Returned (Error InvalidArgument) params"
  by (simp add: TestOpen_def)

lemma TestAccess_bad_count:
  "stack_size params \<noteq> 2 \<Longrightarrow> TestAccess env params = Returned (Error InvalidArgument) params"
  by (simp add: TestAccess_def ASYLO_RETURN_IF_INCORRECT_ARGUMENTS_def)

text \<open>A handler that returns success leaves exactly its results on the stack.\<close>

lemma Abort_results:
  "Abort env params = Returned OkStatus params' \<Longrightarrow> stack_size params' = 0"
  by (auto simp: Abort_def handler_helper_defs Let_def
      split: if_splits sum.splits prod.splits option.splits)

lemma TestAccess_results:
  "TestAccess env params = Returned OkStatus params' \<Longrightarrow> stack_size params' = 1"
  by (auto simp: TestAccess_def handler_helper_defs Let_def
      split: if_splits sum.splits prod.splits option.splits)

lemma TestChmod_results:
  "TestChmod env params = Returned OkStatus params' \<Longrightarrow> stack_size params' = 1"
  by (auto simp: TestChmod_def handler_helper_defs Let_def
      split: if_splits sum.splits prod.splits option.splits)

lemma TestClose_results:
  "TestClose env params = Returned OkStatus params' \<Longrightarrow> stack_size params' = 1"
  by (auto simp: TestClose_def handler_helper_defs Let_def
      split: if_splits sum.splits prod.splits option.splits)

lemma TestFchmod_results:
  "TestFchmod env params = Returned OkStatus params' \<Longrightarrow> stack_size params' = 1"
  by (auto simp: TestFchmod_def handler_helper_defs Let_def
      split: if_splits sum.splits prod.splits option.splits)

lemma TestGetpid_results:
  "TestGetpid env params = Returned OkStatus params' \<Longrightarrow> stack_size params' = 1"
  by (auto simp: TestGetpid_def handler_helper_defs Let_def
      split: if_splits sum.splits prod.splits option.splits)

lemma TestGetPpid_results:
  "TestGetPpid env params = Returned OkStatus params' \<Longrightarrow> stack_size params' = 1"
  by (auto simp: TestGetPpid_def handler_helper_defs Let_def
      split: if_splits sum.splits prod.splits option.splits)

lemma TestSetSid_results:
  "TestSetSid env params = Returned OkStatus params' \<Longrightarrow> stack_size params' = 1"
  by (auto simp: TestSetSid_def handler_helper_defs Let_def
      split: if_splits sum.splits prod.splits option.splits)

lemma TestKill_results:
  "TestKill env params = Returned OkStatus params' \<Longrightarrow> stack_size params' = 1"
  by (auto simp: TestKill_def handler_helper_defs Let_def
      split: if_splits sum.splits prod.splits option.splits)

lemma TestLink_results:
  "TestLink env params = Returned OkStatus params' \<Longrightarrow> stack_size params' = 1"
  by (auto simp: TestLink_def handler_helper_defs Let_def
      split: if_splits sum.splits prod.splits option.splits)

lemma TestLseek_results:
  "TestLseek env params = Returned OkStatus params' \<Longrightarrow> stack_size params' = 1"
  by (auto simp: TestLseek_def handler_helper_defs Let_def
      split: if_splits sum.splits prod.splits option.splits)

lemma TestMkdir_results:
  "TestMkdir env params = Returned OkStatus params' \<Longrightarrow> stack_size params' = 1"
  by (auto simp: TestMkdir_def handler_helper_defs Let_def
      split: if_splits sum.splits prod.splits option.splits)

lemma TestOpen_results:
  "TestOpen env params = Returned OkStatus params' \<Longrightarrow> stack_size params' = 1"
  by (auto simp: TestOpen_def handler_helper_defs Let_def
      split: if_splits sum.splits prod.splits option.splits)

lemma TestUnlink_results:
  "TestUnlink env params = Returned OkStatus params' \<Longrightarrow> stack_size params' = 1"
  by (auto simp: TestUnlink_def handler_helper_defs Let_def
      split: if_splits sum.splits prod.splits option.splits)

lemma TestUmask_results:
  "TestUmask env params = Returned OkStatus params' \<Longrightarrow> stack_size params' = 1"
  by (auto simp: TestUmask_def handler_helper_defs Let_def
      split: if_splits sum.splits prod.splits option.splits)

lemma TestGetuid_results:
  "TestGetuid env params = Returned OkStatus params' \<Longrightarrow> stack_size params' = 1"
  by (auto simp: TestGetuid_def handler_helper_defs Let_def
      split: if_splits sum.splits prod.splits option.splits)

lemma TestGetgid_results:
  "TestGetgid env params = Returned OkStatus params' \<Longrightarrow> stack_size params' = 1"
  by (auto simp: TestGetgid_def handler_helper_defs Let_def
      split: if_splits sum.splits prod.splits option.splits)

lemma TestGeteuid_results:
  "TestGeteuid env params = Returned OkStatus params' \<Longrightarrow> stack_size params' = 1"
  by (auto simp: TestGeteuid_def handler_helper_defs Let_def
      split: if_splits sum.splits prod.splits option.splits)

lemma TestGetegid_results:
  "TestGetegid env params = Returned OkStatus params' \<Longrightarrow> stack_size params' = 1"
  by (auto simp: TestGetegid_def handler_helper_defs Let_def
      split: if_splits sum.splits prod.splits option.splits)

lemma TestRename_results:
  "TestRename env params = Returned OkStatus params' \<Longrightarrow> stack_size params' = 1"
  by (auto simp: TestRename_def handler_helper_defs Let_def
      split: if_splits sum.splits prod.splits option.splits)

lemma TestRead_results:
  "TestRead env params = Returned OkStatus params' \<Longrightarrow> stack_size params' = 2"
  by (auto simp: TestRead_def handler_helper_defs Let_def
      split: if_splits sum.splits prod.splits option.splits)

lemma TestWrite_results:
  "TestWrite env params = Returned OkStatus params' \<Longrightarrow> stack_size params' = 1"
  by (auto simp: TestWrite_def handler_helper_defs Let_def
      split: if_splits sum.splits prod.splits option.splits)

lemma TestSymlink_results:
  "TestSymlink env params = Returned OkStatus params' \<Longrightarrow> stack_size params' = 1"
  by (auto simp: TestSymlink_def handler_helper_defs Let_def
      split: if_splits sum.splits prod.splits option.splits)

lemma TestReadlink_results:
  "TestReadlink env params = Returned OkStatus params' \<Longrightarrow> stack_size params' = 2"
  by (auto simp: TestReadlink_def handler_helper_defs Let_def
      split: if_splits sum.splits prod.splits option.splits)

lemma TestTruncate_results:
  "TestTruncate env params = Returned OkStatus params' \<Longrightarrow> stack_size params' = 1"
  by (auto simp: TestTruncate_def handler_helper_defs Let_def
      split: if_splits sum.splits prod.splits option.splits)

lemma TestFTruncate_results:
  "TestFTruncate env params = Returned OkStatus params' \<Longrightarrow> stack_size params' = 1"
  by (auto simp: TestFTruncate_def handler_helper_defs Let_def
      split: if_splits sum.splits prod.splits option.splits)

lemma TestRmdir_results:
  "TestRmdir env params = Returned OkStatus params' \<Longrightarrow> stack_size params' = 1"
  by (auto simp: TestRmdir_def handler_helper_defs Let_def
      split: if_splits sum.splits prod.splits option.splits)

lemma TestSocket_results:
  "TestSocket env params = Returned OkStatus params' \<Longrightarrow> stack_size params' = 1"
  by (auto simp: TestSocket_def handler_helper_defs Let_def
      split: if_splits sum.splits prod.splits option.splits)

lemma TestFcntl_results:
  "TestFcntl env params = Returned OkStatus params' \<Longrightarrow> stack_size params' = 1"
  by (auto simp: TestFcntl_def handler_helper_defs Let_def
      split: if_splits sum.splits prod.splits option.splits)

lemma TestChown_results:
  "TestChown env params = Returned OkStatus params' \<Longrightarrow> stack_size params' = 1"
  by (auto simp: TestChown_def handler_helper_defs Let_def
      split: if_splits sum.splits prod.splits option.splits)

lemma TestFChown_results:
  "TestFChown env params = Returned OkStatus params' \<Longrightarrow> stack_size params' = 1"
  by (auto simp: TestFChown_def handler_helper_defs Let_def
      split: if_splits sum.splits prod.splits option.splits)

lemma TestSetsockopt_results:
  "TestSetsockopt env params = Returned OkStatus params' \<Longrightarrow> stack_size params' = 1"
  by (auto simp: TestSetsockopt_def handler_helper_defs Let_def
      split: if_splits sum.splits prod.splits option.splits)

lemma TestFlock_results:
  "TestFlock env params = Returned OkStatus params' \<Longrightarrow> stack_size params' = 1"
  by (auto simp: TestFlock_def handler_helper_defs Let_def
      split: if_splits sum.splits prod.splits option.splits)

lemma TestFsync_results:
  "TestFsync env params = Returned OkStatus params' \<Longrightarrow> stack_size params' = 1"
  by (auto simp: TestFsync_def handler_helper_defs Let_def
      split: if_splits sum.splits prod.splits option.splits)

lemma TestInotifyInit1_results:
  "TestInotifyInit1 env params = Returned OkStatus params' \<Longrightarrow> stack_size params' = 1"
  by (auto simp: TestInotifyInit1_def handler_helper_defs Let_def
      split: if_splits sum.splits prod.splits option.splits)

lemma TestInotifyAddWatch_results:
  "TestInotifyAddWatch env params = Returned OkStatus params' \<Longrightarrow> stack_size params' = 1"
  by (auto simp: TestInotifyAddWatch_def handler_helper_defs Let_def
      split: if_splits sum.splits prod.splits option.splits)

lemma TestInotifyRmWatch_results:
  "TestInotifyRmWatch env params = Returned OkStatus params' \<Longrightarrow> stack_size params' = 1"
  by (auto simp: TestInotifyRmWatch_def handler_helper_defs Let_def
      split: if_splits sum.splits prod.splits option.splits)

lemma TestSchedYield_results:
  "TestSchedYield env params = Returned OkStatus params' \<Longrightarrow> stack_size params' = 1"
  by (auto simp: TestSchedYield_def handler_helper_defs Let_def
      split: if_splits sum.splits prod.splits option.splits)

lemma TestIsAtty_results:
  "TestIsAtty env params = Returned OkStatus params' \<Longrightarrow> stack_size params' = 1"
  by (auto simp: TestIsAtty_def handler_helper_defs Let_def
      split: if_splits sum.splits prod.splits option.splits)

lemma TestUSleep_results:
  "TestUSleep env params = Returned OkStatus params' \<Longrightarrow> stack_size params' = 1"
  by (auto simp: TestUSleep_def handler_helper_defs Let_def
      split: if_splits sum.splits prod.splits option.splits)

text \<open>
  A handler that returns an error rejected the argument count, and left the stack as it
  was given.
\<close>
lemma Abort_errors:
  "Abort env params = Returned (Error e) params' \<Longrightarrow>
   e = InvalidArgument \<and> params' = params \<and> stack_size params \<noteq> 0"
  by (auto simp: Abort_def handler_helper_defs Let_def butlast_eq_Nil_iff
      split: if_splits sum.splits prod.splits option.splits)

lemma TestAccess_errors:
  "TestAccess env params = Returned (Error e) params' \<Longrightarrow>
   e = InvalidArgument \<and> params' = params \<and> stack_size params \<noteq> 2"
  by (auto simp: TestAccess_def handler_helper_defs Let_def butlast_eq_Nil_iff
      split: if_splits sum.splits prod.splits option.splits)

lemma TestChmod_errors:
  "TestChmod env params = Returned (Error e) params' \<Longrightarrow>
   e = InvalidArgument \<and> params' = params \<and> stack_size params \<noteq> 2"
  by (auto simp: TestChmod_def handler_helper_defs Let_def butlast_eq_Nil_iff
      split: if_splits sum.splits prod.splits option.splits)

lemma TestClose_errors:
  "TestClose env params = Returned (Error e) params' \<Longrightarrow>
   e = InvalidArgument \<and> params' = params \<and> stack_size params \<noteq> 1"
  by (auto simp: TestClose_def handler_helper_defs Let_def butlast_eq_Nil_iff
      split: if_splits sum.splits prod.splits option.splits)

lemma TestFchmod_errors:
  "TestFchmod env params = Returned (Error e) params' \<Longrightarrow>
   e = InvalidArgument \<and> params' = params \<and> stack_size params \<noteq> 2"
  by (auto simp: TestFchmod_def handler_helper_defs Let_def butlast_eq_Nil_iff
      split: if_splits sum.splits prod.splits option.splits)

lemma TestGetpid_errors:
  "TestGetpid env params = Returned (Error e) params' \<Longrightarrow>
   e = InvalidArgument \<and> params' = params \<and> stack_size params \<noteq> 0"
  by (auto simp: TestGetpid_def handler_helper_defs Let_def butlast_eq_Nil_iff
      split: if_splits sum.splits prod.splits option.splits)

lemma TestGetPpid_errors:
  "TestGetPpid env params = Returned (Error e) params' \<Longrightarrow>
   e = InvalidArgument \<and> params' = params \<and> stack_size params \<noteq> 0"
  by (auto simp: TestGetPpid_def handler_helper_defs Let_def butlast_eq_Nil_iff
      split: if_splits sum.splits prod.splits option.splits)

lemma TestSetSid_errors:
  "TestSetSid env params = Returned (Error e) params' \<Longrightarrow>
   e = InvalidArgument \<and> params' = params \<and> stack_size params \<noteq> 0"
  by (auto simp: TestSetSid_def handler_helper_defs Let_def butlast_eq_Nil_iff
      split: if_splits sum.splits prod.splits option.splits)

lemma TestKill_errors:
  "TestKill env params = Returned (Error e) params' \<Longrightarrow>
   e = InvalidArgument \<and> params' = params \<and> stack_size params \<noteq> 2"
  by (auto simp: TestKill_def handler_helper_defs Let_def butlast_eq_Nil_iff
      split: if_splits sum.splits prod.splits option.splits)

lemma TestLink_errors:
  "TestLink env params = Returned (Error e) params' \<Longrightarrow>
   e = InvalidArgument \<and> params' = params \<and> stack_size params \<noteq> 2"
  by (auto simp: TestLink_def handler_helper_defs Let_def butlast_eq_Nil_iff
      split: if_splits sum.splits prod.splits option.splits)

lemma TestLseek_errors:
  "TestLseek env params = Returned (Error e) params' \<Longrightarrow>
   e = InvalidArgument \<and> params' = params \<and> stack_size params \<noteq> 3"
  by (auto simp: TestLseek_def handler_helper_defs Let_def butlast_eq_Nil_iff
      split: if_splits sum.splits prod.splits option.splits)

lemma TestMkdir_errors:
  "TestMkdir env params = Returned (Error e) params' \<Longrightarrow>
   e = InvalidArgument \<and> params' = params \<and> stack_size params \<noteq> 2"
  by (auto simp: TestMkdir_def handler_helper_defs Let_def butlast_eq_Nil_iff
      split: if_splits sum.splits prod.splits option.splits)

lemma TestOpen_errors:
  "TestOpen env params = Returned (Error e) params' \<Longrightarrow>
   e = InvalidArgument \<and> params' = params \<and> stack_size params \<noteq> 3 \<and> stack_size params \<noteq> 2"
  by (auto simp: TestOpen_def handler_helper_defs Let_def butlast_eq_Nil_iff
      split: if_splits sum.splits prod.splits option.splits)

lemma TestUnlink_errors:
  "TestUnlink env params = Returned (Error e) params' \<Longrightarrow>
   e = InvalidArgument \<and> params' = params \<and> stack_size params \<noteq> 1"
  by (auto simp: TestUnlink_def handler_helper_defs Let_def butlast_eq_Nil_iff
      split: if_splits sum.splits prod.splits option.splits)

lemma TestUmask_errors:
  "TestUmask env params = Returned (Error e) params' \<Longrightarrow>
   e = InvalidArgument \<and> params' = params \<and> stack_size params \<noteq> 1"
  by (auto simp: TestUmask_def handler_helper_defs Let_def butlast_eq_Nil_iff
      split: if_splits sum.splits prod.splits option.splits)

lemma TestGetuid_errors:
  "TestGetuid env params = Returned (Error e) params' \<Longrightarrow>
   e = InvalidArgument \<and> params' = params \<and> stack_size params \<noteq> 0"
  by (auto simp: TestGetuid_def handler_helper_defs Let_def butlast_eq_Nil_iff
      split: if_splits sum.splits prod.splits option.splits)

lemma TestGetgid_errors:
  "TestGetgid env params = Returned (Error e) params' \<Longrightarrow>
   e = InvalidArgument \<and> params' = params \<and> stack_size params \<noteq> 0"
  by (auto simp: TestGetgid_def handler_helper_defs Let_def butlast_eq_Nil_iff
      split: if_splits sum.splits prod.splits option.splits)

lemma TestGeteuid_errors:
  "TestGeteuid env params = Returned (Error e) params' \<Longrightarrow>
   e = InvalidArgument \<and> params' = params \<and> stack_size params \<noteq> 0"
  by (auto simp: TestGeteuid_def handler_helper_defs Let_def butlast_eq_Nil_iff
      split: if_splits sum.splits prod.splits option.splits)

lemma TestGetegid_errors:
  "TestGetegid env params = Returned (Error e) params' \<Longrightarrow>
   e = InvalidArgument \<and> params' = params \<and> stack_size params \<noteq> 0"
  by (auto simp: TestGetegid_def handler_helper_defs Let_def butlast_eq_Nil_iff
      split: if_splits sum.splits prod.splits option.splits)

lemma TestRename_errors:
  "TestRename env params = Returned (Error e) params' \<Longrightarrow>
   e = InvalidArgument \<and> params' = params \<and> stack_size params \<noteq> 2"
  by (auto simp: TestRename_def handler_helper_defs Let_def butlast_eq_Nil_iff
      split: if_splits sum.splits prod.splits option.splits)

lemma TestRead_errors:
  "TestRead env params = Returned (Error e) params' \<Longrightarrow>
   e = InvalidArgument \<and> params' = params \<and> stack_size params \<noteq> 2"
  by (auto simp: TestRead_def handler_helper_defs Let_def butlast_eq_Nil_iff
      split: if_splits sum.splits prod.splits option.splits)

lemma TestWrite_errors:
  "TestWrite env params = Returned (Error e) params' \<Longrightarrow>
   e = InvalidArgument \<and> params' = params \<and> stack_size params \<noteq> 3"
  by (auto simp: TestWrite_def handler_helper_defs Let_def butlast_eq_Nil_iff
      split: if_splits sum.splits prod.splits option.splits)

lemma TestSymlink_errors:
  "TestSymlink env params = Returned (Error e) params' \<Longrightarrow>
   e = InvalidArgument \<and> params' = params \<and> stack_size params \<noteq> 2"
  by (auto simp: TestSymlink_def handler_helper_defs Let_def butlast_eq_Nil_iff
      split: if_splits sum.splits prod.splits option.splits)

lemma TestReadlink_errors:
  "TestReadlink env params = Returned (Error e) params' \<Longrightarrow>
   e = InvalidArgument \<and> params' = params \<and> stack_size params \<noteq> 1"
  by (auto simp: TestReadlink_def handler_helper_defs Let_def butlast_eq_Nil_iff
      split: if_splits sum.splits prod.splits option.splits)

lemma TestTruncate_errors:
  "TestTruncate env params = Returned (Error e) params' \<Longrightarrow>
   e = InvalidArgument \<and> params' = params \<and> stack_size params \<noteq> 2"
  by (auto simp: TestTruncate_def handler_helper_defs Let_def butlast_eq_Nil_iff
      split: if_splits sum.splits prod.splits option.splits)

lemma TestFTruncate_errors:
  "TestFTruncate env params = Returned (Error e) params' \<Longrightarrow>
   e = InvalidArgument \<and> params' = params \<and> stack_size params \<noteq> 2"
  by (auto simp: TestFTruncate_def handler_helper_defs Let_def butlast_eq_Nil_iff
      split: if_splits sum.splits prod.splits option.splits)

lemma TestRmdir_errors:
  "TestRmdir env params = Returned (Error e) params' \<Longrightarrow>
   e = InvalidArgument \<and> params' = params \<and> stack_size params \<noteq> 1"
  by (auto simp: TestRmdir_def handler_helper_defs Let_def butlast_eq_Nil_iff
      split: if_splits sum.splits prod.splits option.splits)

lemma TestSocket_errors:
  "TestSocket env params = Returned (Error e) params' \<Longrightarrow>
   e = InvalidArgument \<and> params' = params \<and> stack_size params \<noteq> 3"
  by (auto simp: TestSocket_def handler_helper_defs Let_def butlast_eq_Nil_iff
      split: if_splits sum.splits prod.splits option.splits)

lemma TestFcntl_errors:
  "TestFcntl env params = Returned (Error e) params' \<Longrightarrow>
   e = InvalidArgument \<and> params' = params \<and> stack_size params \<noteq> 3"
  by (auto simp: TestFcntl_def handler_helper_defs Let_def butlast_eq_Nil_iff
      split: if_splits sum.splits prod.splits option.splits)

lemma TestChown_errors:
  "TestChown env params = Returned (Error e) params' \<Longrightarrow>
   e = InvalidArgument \<and> params' = params \<and> stack_size params \<noteq> 3"
  by (auto simp: TestChown_def handler_helper_defs Let_def butlast_eq_Nil_iff
      split: if_splits sum.splits prod.splits option.splits)

lemma TestFChown_errors:
  "TestFChown env params = Returned (Error e) params' \<Longrightarrow>
   e = InvalidArgument \<and> params' = params \<and> stack_size params \<noteq> 3"
  by (auto simp: TestFChown_def handler_helper_defs Let_def butlast_eq_Nil_iff
      split: if_splits sum.splits prod.splits option.splits)

lemma TestSetsockopt_errors:
  "TestSetsockopt env params = Returned (Error e) params' \<Longrightarrow>
   e = InvalidArgument \<and> params' = params \<and> stack_size params \<noteq> 4"
  by (auto simp: TestSetsockopt_def handler_helper_defs Let_def butlast_eq_Nil_iff
      split: if_splits sum.splits prod.splits option.splits)

lemma TestFlock_errors:
  "TestFlock env params = Returned (Error e) params' \<Longrightarrow>
   e = InvalidArgument \<and> params' = params \<and> stack_size params \<noteq> 2"
  by (auto simp: TestFlock_def handler_helper_defs Let_def butlast_eq_Nil_iff
      split: if_splits sum.splits prod.splits option.splits)

lemma TestFsync_errors:
  "TestFsync env params = Returned (Error e) params' \<Longrightarrow>
   e = InvalidArgument \<and> params' = params \<and> stack_size params \<noteq> 1"
  by (auto simp: TestFsync_def handler_helper_defs Let_def butlast_eq_Nil_iff
      split: if_splits sum.splits prod.splits option.splits)

lemma TestInotifyInit1_errors:
  "TestInotifyInit1 env params = Returned (Error e) params' \<Longrightarrow>
   e = InvalidArgument \<and> params' = params \<and> stack_size params \<noteq> 1"
  by (auto simp: TestInotifyInit1_def handler_helper_defs Let_def butlast_eq_Nil_iff
      split: if_splits sum.splits prod.splits option.splits)

lemma TestInotifyAddWatch_errors:
  "TestInotifyAddWatch env params = Returned (Error e) params' \<Longrightarrow>
   e = InvalidArgument \<and> params' = params \<and> stack_size params \<noteq> 3"
  by (auto simp: TestInotifyAddWatch_def handler_helper_defs Let_def butlast_eq_Nil_iff
      split: if_splits sum.splits prod.splits option.splits)

lemma TestInotifyRmWatch_errors:
  "TestInotifyRmWatch env params = Returned (Error e) params' \<Longrightarrow>
   e = InvalidArgument \<and> params' = params \<and> stack_size params \<noteq> 2"
  by (auto simp: TestInotifyRmWatch_def handler_helper_defs Let_def butlast_eq_Nil_iff
      split: if_splits sum.splits prod.splits option.splits)

lemma TestSchedYield_errors:
  "TestSchedYield env params = Returned (Error e) params' \<Longrightarrow>
   e = InvalidArgument \<and> params' = params \<and> stack_size params \<noteq> 0"
  by (auto simp: TestSchedYield_def handler_helper_defs Let_def butlast_eq_Nil_iff
      split: if_splits sum.splits prod.splits option.splits)

lemma TestIsAtty_errors:
  "TestIsAtty env params = Returned (Error e) params' \<Longrightarrow>
   e = InvalidArgument \<and> params' = params \<and> stack_size params \<noteq> 1"
  by (auto simp: TestIsAtty_def handler_helper_defs Let_def butlast_eq_Nil_iff
      split: if_splits sum.splits prod.splits option.splits)

lemma TestUSleep_errors:
  "TestUSleep env params = Returned (Error e) params' \<Longrightarrow>
   e = InvalidArgument \<and> params' = params \<and> stack_size params \<noteq> 1"
  by (auto simp: TestUSleep_def handler_helper_defs Let_def butlast_eq_Nil_iff
      split: if_splits sum.splits prod.splits option.splits)

text \<open>A handler rejects every argument count but its own.\<close>
lemma Abort_wrong_count:
  "stack_size params \<noteq> 0 \<Longrightarrow>
   Abort env params = Returned (Error InvalidArgument) params"
  by (simp add: Abort_def ASYLO_RETURN_IF_INCORRECT_ARGUMENTS_def ASYLO_RETURN_IF_STACK_EMPTY_def
      stack_size_def)

lemma TestAccess_wrong_count:
  "stack_size params \<noteq> 2 \<Longrightarrow>
   TestAccess env params = Returned (Error InvalidArgument) params"
  by (simp add: TestAccess_def ASYLO_RETURN_IF_INCORRECT_ARGUMENTS_def ASYLO_RETURN_IF_STACK_EMPTY_def
      stack_size_def)

lemma TestChmod_wrong_count:
  "stack_size params \<noteq> 2 \<Longrightarrow>
   TestChmod env params = Returned (Error InvalidArgument) params"
  by (simp add: TestChmod_def ASYLO_RETURN_IF_INCORRECT_ARGUMENTS_def ASYLO_RETURN_IF_STACK_EMPTY_def
      stack_size_def)

lemma TestClose_wrong_count:
  "stack_size params \<noteq> 1 \<Longrightarrow>
   TestClose env params = Returned (Error InvalidArgument) params"
  by (simp add: TestClose_def ASYLO_RETURN_IF_INCORRECT_ARGUMENTS_def ASYLO_RETURN_IF_STACK_EMPTY_def
      stack_size_def)

lemma TestFchmod_wrong_count:
  "stack_size params \<noteq> 2 \<Longrightarrow>
   TestFchmod env params = Returned (Error InvalidArgument) params"
  by (simp add: TestFchmod_def ASYLO_RETURN_IF_INCORRECT_ARGUMENTS_def ASYLO_RETURN_IF_STACK_EMPTY_def
      stack_size_def)

lemma TestGetpid_wrong_count:
  "stack_size params \<noteq> 0 \<Longrightarrow>
   TestGetpid env params = Returned (Error InvalidArgument) params"
  by (simp add: TestGetpid_def ASYLO_RETURN_IF_INCORRECT_ARGUMENTS_def ASYLO_RETURN_IF_STACK_EMPTY_def
      stack_size_def)

lemma TestGetPpid_wrong_count:
  "stack_size params \<noteq> 0 \<Longrightarrow>
   TestGetPpid env params = Returned (Error InvalidArgument) params"
  by (simp add: TestGetPpid_def ASYLO_RETURN_IF_INCORRECT_ARGUMENTS_def ASYLO_RETURN_IF_STACK_EMPTY_def
      stack_size_def)

lemma TestSetSid_wrong_count:
  "stack_size params \<noteq> 0 \<Longrightarrow>
   TestSetSid env params = Returned (Error InvalidArgument) params"
  by (simp add: TestSetSid_def ASYLO_RETURN_IF_INCORRECT_ARGUMENTS_def ASYLO_RETURN_IF_STACK_EMPTY_def
      stack_size_def)

lemma TestKill_wrong_count:
  "stack_size params \<noteq> 2 \<Longrightarrow>
   TestKill env params = Returned (Error InvalidArgument) params"
  by (simp add: TestKill_def ASYLO_RETURN_IF_INCORRECT_ARGUMENTS_def ASYLO_RETURN_IF_STACK_EMPTY_def
      stack_size_def)

lemma TestLink_wrong_count:
  "stack_size params \<noteq> 2 \<Longrightarrow>
   TestLink env params = Returned (Error InvalidArgument) params"
  by (simp add: TestLink_def ASYLO_RETURN_IF_INCORRECT_ARGUMENTS_def ASYLO_RETURN_IF_STACK_EMPTY_def
      stack_size_def)

lemma TestLseek_wrong_count:
  "stack_size params \<noteq> 3 \<Longrightarrow>
   TestLseek env params = Returned (Error InvalidArgument) params"
  by (simp add: TestLseek_def ASYLO_RETURN_IF_INCORRECT_ARGUMENTS_def ASYLO_RETURN_IF_STACK_EMPTY_def
      stack_size_def)

lemma TestMkdir_wrong_count:
  "stack_size params \<noteq> 2 \<Longrightarrow>
   TestMkdir env params = Returned (Error InvalidArgument) params"
  by (simp add: TestMkdir_def ASYLO_RETURN_IF_INCORRECT_ARGUMENTS_def ASYLO_RETURN_IF_STACK_EMPTY_def
      stack_size_def)

lemma TestOpen_wrong_count:
  "stack_size params \<noteq> 3 \<Longrightarrow> stack_size params \<noteq> 2 \<Longrightarrow>
   TestOpen env params = Returned (Error InvalidArgument) params"
  by (simp add: TestOpen_def ASYLO_RETURN_IF_INCORRECT_ARGUMENTS_def ASYLO_RETURN_IF_STACK_EMPTY_def
      stack_size_def)

lemma TestUnlink_wrong_count:
  "stack_size params \<noteq> 1 \<Longrightarrow>
   TestUnlink env params = Returned (Error InvalidArgument) params"
  by (simp add: TestUnlink_def ASYLO_RETURN_IF_INCORRECT_ARGUMENTS_def ASYLO_RETURN_IF_STACK_EMPTY_def
      stack_size_def)

lemma TestUmask_wrong_count:
  "stack_size params \<noteq> 1 \<Longrightarrow>
   TestUmask env params = Returned (Error InvalidArgument) params"
  by (simp add: TestUmask_def ASYLO_RETURN_IF_INCORRECT_ARGUMENTS_def ASYLO_RETURN_IF_STACK_EMPTY_def
      stack_size_def)

lemma TestGetuid_wrong_count:
  "stack_size params \<noteq> 0 \<Longrightarrow>
   TestGetuid env params = Returned (Error InvalidArgument) params"
  by (simp add: TestGetuid_def ASYLO_RETURN_IF_INCORRECT_ARGUMENTS_def ASYLO_RETURN_IF_STACK_EMPTY_def
      stack_size_def)

lemma TestGetgid_wrong_count:
  "stack_size params \<noteq> 0 \<Longrightarrow>
   TestGetgid env params = Returned (Error InvalidArgument) params"
  by (simp add: TestGetgid_def ASYLO_RETURN_IF_INCORRECT_ARGUMENTS_def ASYLO_RETURN_IF_STACK_EMPTY_def
      stack_size_def)

lemma TestGeteuid_wrong_count:
  "stack_size params \<noteq> 0 \<Longrightarrow>
   TestGeteuid env params = Returned (Error InvalidArgument) params"
  by (simp add: TestGeteuid_def ASYLO_RETURN_IF_INCORRECT_ARGUMENTS_def ASYLO_RETURN_IF_STACK_EMPTY_def
      stack_size_def)

lemma TestGetegid_wrong_count:
  "stack_size params \<noteq> 0 \<Longrightarrow>
   TestGetegid env params = Returned (Error InvalidArgument) params"
  by (simp add: TestGetegid_def ASYLO_RETURN_IF_INCORRECT_ARGUMENTS_def ASYLO_RETURN_IF_STACK_EMPTY_def
      stack_size_def)

lemma TestRename_wrong_count:
  "stack_size params \<noteq> 2 \<Longrightarrow>
   TestRename env params = Returned (Error InvalidArgument) params"
  by (simp add: TestRename_def ASYLO_RETURN_IF_INCORRECT_ARGUMENTS_def ASYLO_RETURN_IF_STACK_EMPTY_def
      stack_size_def)

lemma TestRead_wrong_count:
  "stack_size params \<noteq> 2 \<Longrightarrow>
   TestRead env params = Returned (Error InvalidArgument) params"
  by (simp add: TestRead_def ASYLO_RETURN_IF_INCORRECT_ARGUMENTS_def ASYLO_RETURN_IF_STACK_EMPTY_def
      stack_size_def)

lemma TestWrite_wrong_count:
  "stack_size params \<noteq> 3 \<Longrightarrow>
   TestWrite env params = Returned (Error InvalidArgument) params"
  by (simp add: TestWrite_def ASYLO_RETURN_IF_INCORRECT_ARGUMENTS_def ASYLO_RETURN_IF_STACK_EMPTY_def
      stack_size_def)

lemma TestSymlink_wrong_count:
  "stack_size params \<noteq> 2 \<Longrightarrow>
   TestSymlink env params = Returned (Error InvalidArgument) params"
  by (simp add: TestSymlink_def ASYLO_RETURN_IF_INCORRECT_ARGUMENTS_def ASYLO_RETURN_IF_STACK_EMPTY_def
      stack_size_def)

lemma TestReadlink_wrong_count:
  "stack_size params \<noteq> 1 \<Longrightarrow>
   TestReadlink env params = Returned (Error InvalidArgument) params"
  by (simp add: TestReadlink_def ASYLO_RETURN_IF_INCORRECT_ARGUMENTS_def ASYLO_RETURN_IF_STACK_EMPTY_def
      stack_size_def)

lemma TestTruncate_wrong_count:
  "stack_size params \<noteq> 2 \<Longrightarrow>
   TestTruncate env params = Returned (Error InvalidArgument) params"
  by (simp add: TestTruncate_def ASYLO_RETURN_IF_INCORRECT_ARGUMENTS_def ASYLO_RETURN_IF_STACK_EMPTY_def
      stack_size_def)

lemma TestFTruncate_wrong_count:
  "stack_size params \<noteq> 2 \<Longrightarrow>
   TestFTruncate env params = Returned (Error InvalidArgument) params"
  by (simp add: TestFTruncate_def ASYLO_RETURN_IF_INCORRECT_ARGUMENTS_def ASYLO_RETURN_IF_STACK_EMPTY_def
      stack_size_def)

lemma TestRmdir_wrong_count:
  "stack_size params \<noteq> 1 \<Longrightarrow>
   TestRmdir env params = Returned (Error InvalidArgument) params"
  by (simp add: TestRmdir_def ASYLO_RETURN_IF_INCORRECT_ARGUMENTS_def ASYLO_RETURN_IF_STACK_EMPTY_def
      stack_size_def)

lemma TestSocket_wrong_count:
  "stack_size params \<noteq> 3 \<Longrightarrow>
   TestSocket env params = Returned (Error InvalidArgument) params"
  by (simp add: TestSocket_def ASYLO_RETURN_IF_INCORRECT_ARGUMENTS_def ASYLO_RETURN_IF_STACK_EMPTY_def
      stack_size_def)

lemma TestFcntl_wrong_count:
  "stack_size params \<noteq> 3 \<Longrightarrow>
   TestFcntl env params = Returned (Error InvalidArgument) params"
  by (simp add: TestFcntl_def ASYLO_RETURN_IF_INCORRECT_ARGUMENTS_def ASYLO_RETURN_IF_STACK_EMPTY_def
      stack_size_def)

lemma TestChown_wrong_count:
  "stack_size params \<noteq> 3 \<Longrightarrow>
   TestChown env params = Returned (Error InvalidArgument) params"
  by (simp add: TestChown_def ASYLO_RETURN_IF_INCORRECT_ARGUMENTS_def ASYLO_RETURN_IF_STACK_EMPTY_def
      stack_size_def)

lemma TestFChown_wrong_count:
  "stack_size params \<noteq> 3 \<Longrightarrow>
   TestFChown env params = Returned (Error InvalidArgument) params"
  by (simp add: TestFChown_def ASYLO_RETURN_IF_INCORRECT_ARGUMENTS_def ASYLO_RETURN_IF_STACK_EMPTY_def
      stack_size_def)

lemma TestSetsockopt_wrong_count:
  "stack_size params \<noteq> 4 \<Longrightarrow>
   TestSetsockopt env params = Returned (Error InvalidArgument) params"
  by (simp add: TestSetsockopt_def ASYLO_RETURN_IF_INCORRECT_ARGUMENTS_def ASYLO_RETURN_IF_STACK_EMPTY_def
      stack_size_def)

lemma TestFlock_wrong_count:
  "stack_size params \<noteq> 2 \<Longrightarrow>
   TestFlock env params = Returned (Error InvalidArgument) params"
  by (simp add: TestFlock_def ASYLO_RETURN_IF_INCORRECT_ARGUMENTS_def ASYLO_RETURN_IF_STACK_EMPTY_def
      stack_size_def)

lemma TestFsync_wrong_count:
  "stack_size params \<noteq> 1 \<Longrightarrow>
   TestFsync env params = Returned (Error InvalidArgument) params"
  by (simp add: TestFsync_def ASYLO_RETURN_IF_INCORRECT_ARGUMENTS_def ASYLO_RETURN_IF_STACK_EMPTY_def
      stack_size_def)

lemma TestInotifyInit1_wrong_count:
  "stack_size params \<noteq> 1 \<Longrightarrow>
   TestInotifyInit1 env params = Returned (Error InvalidArgument) params"
  by (simp add: TestInotifyInit1_def ASYLO_RETURN_IF_INCORRECT_ARGUMENTS_def ASYLO_RETURN_IF_STACK_EMPTY_def
      stack_size_def)

lemma TestInotifyAddWatch_wrong_count:
  "stack_size params \<noteq> 3 \<Longrightarrow>
   TestInotifyAddWatch env params = Returned (Error InvalidArgument) params"
  by (simp add: TestInotifyAddWatch_def ASYLO_RETURN_IF_INCORRECT_ARGUMENTS_def ASYLO_RETURN_IF_STACK_EMPTY_def
      stack_size_def)

lemma TestInotifyRmWatch_wrong_count:
  "stack_size params \<noteq> 2 \<Longrightarrow>
   TestInotifyRmWatch env params = Returned (Error InvalidArgument) params"
  by (simp add: TestInotifyRmWatch_def ASYLO_RETURN_IF_INCORRECT_ARGUMENTS_def ASYLO_RETURN_IF_STACK_EMPTY_def
      stack_size_def)

lemma TestSchedYield_wrong_count:
  "stack_size params \<noteq> 0 \<Longrightarrow>
   TestSchedYield env params = Returned (Error InvalidArgument) params"
  by (simp add: TestSchedYield_def ASYLO_RETURN_IF_INCORRECT_ARGUMENTS_def ASYLO_RETURN_IF_STACK_EMPTY_def
      stack_size_def)

lemma TestIsAtty_wrong_count:
  "stack_size params \<noteq> 1 \<Longrightarrow>
   TestIsAtty env params = Returned (Error InvalidArgument) params"
  by (simp add: TestIsAtty_def ASYLO_RETURN_IF_INCORRECT_ARGUMENTS_def ASYLO_RETURN_IF_STACK_EMPTY_def
      stack_size_def)

lemma TestUSleep_wrong_count:
  "stack_size params \<noteq> 1 \<Longrightarrow>
   TestUSleep env params = Returned (Error InvalidArgument) params"
  by (simp add: TestUSleep_def ASYLO_RETURN_IF_INCORRECT_ARGUMENTS_def ASYLO_RETURN_IF_STACK_EMPTY_def
      stack_size_def)

text \<open>No handler pops an empty stack: a pop of a handler fails on a short entry only.\<close>
lemma Abort_pops:
  "Abort env params = PopFailed e \<Longrightarrow> e = SizeMismatch"
  by (auto simp: Abort_def handler_helper_defs Let_def butlast_eq_Nil_iff
      split: if_splits sum.splits prod.splits option.splits)

lemma TestAccess_pops:
  "TestAccess env params = PopFailed e \<Longrightarrow> e = SizeMismatch"
  by (auto simp: TestAccess_def handler_helper_defs Let_def butlast_eq_Nil_iff
      split: if_splits sum.splits prod.splits option.splits)

lemma TestChmod_pops:
  "TestChmod env params = PopFailed e \<Longrightarrow> e = SizeMismatch"
  by (auto simp: TestChmod_def handler_helper_defs Let_def butlast_eq_Nil_iff
      split: if_splits sum.splits prod.splits option.splits)

lemma TestClose_pops:
  "TestClose env params = PopFailed e \<Longrightarrow> e = SizeMismatch"
  by (auto simp: TestClose_def handler_helper_defs Let_def butlast_eq_Nil_iff
      split: if_splits sum.splits prod.splits option.splits)

lemma TestFchmod_pops:
  "TestFchmod env params = PopFailed e \<Longrightarrow> e = SizeMismatch"
  by (auto simp: TestFchmod_def handler_helper_defs Let_def butlast_eq_Nil_iff
      split: if_splits sum.splits prod.splits option.splits)

lemma TestGetpid_pops:
  "TestGetpid env params = PopFailed e \<Longrightarrow> e = SizeMismatch"
  by (auto simp: TestGetpid_def handler_helper_defs Let_def butlast_eq_Nil_iff
      split: if_splits sum.splits prod.splits option.splits)

lemma TestGetPpid_pops:
  "TestGetPpid env params = PopFailed e \<Longrightarrow> e = SizeMismatch"
  by (auto simp: TestGetPpid_def handler_helper_defs Let_def butlast_eq_Nil_iff
      split: if_splits sum.splits prod.splits option.splits)

lemma TestSetSid_pops:
  "TestSetSid env params = PopFailed e \<Longrightarrow> e = SizeMismatch"
  by (auto simp: TestSetSid_def handler_helper_defs Let_def butlast_eq_Nil_iff
      split: if_splits sum.splits prod.splits option.splits)

lemma TestKill_pops:
  "TestKill env params = PopFailed e \<Longrightarrow> e = SizeMismatch"
  by (auto simp: TestKill_def handler_helper_defs Let_def butlast_eq_Nil_iff
      split: if_splits sum.splits prod.splits option.splits)

lemma TestLink_pops:
  "TestLink env params = PopFailed e \<Longrightarrow> e = SizeMismatch"
  by (auto simp: TestLink_def handler_helper_defs Let_def butlast_eq_Nil_iff
      split: if_splits sum.splits prod.splits option.splits)

lemma TestLseek_pops:
  "TestLseek env params = PopFailed e \<Longrightarrow> e = SizeMismatch"
  by (auto simp: TestLseek_def handler_helper_defs Let_def butlast_eq_Nil_iff
      split: if_splits sum.splits prod.splits option.splits)

lemma TestMkdir_pops:
  "TestMkdir env params = PopFailed e \<Longrightarrow> e = SizeMismatch"
  by (auto simp: TestMkdir_def handler_helper_defs Let_def butlast_eq_Nil_iff
      split: if_splits sum.splits prod.splits option.splits)

lemma TestOpen_pops:
  "TestOpen env params = PopFailed e \<Longrightarrow> e = SizeMismatch"
  by (auto simp: TestOpen_def handler_helper_defs Let_def butlast_eq_Nil_iff
      split: if_splits sum.splits prod.splits option.splits)

lemma TestUnlink_pops:
  "TestUnlink env params = PopFailed e \<Longrightarrow> e = SizeMismatch"
  by (auto simp: TestUnlink_def handler_helper_defs Let_def butlast_eq_Nil_iff
      split: if_splits sum.splits prod.splits option.splits)

lemma TestUmask_pops:
  "TestUmask env params = PopFailed e \<Longrightarrow> e = SizeMismatch"
  by (auto simp: TestUmask_def handler_helper_defs Let_def butlast_eq_Nil_iff
      split: if_splits sum.splits prod.splits option.splits)

lemma TestGetuid_pops:
  "TestGetuid env params = PopFailed e \<Longrightarrow> e = SizeMismatch"
  by (auto simp: TestGetuid_def handler_helper_defs Let_def butlast_eq_Nil_iff
      split: if_splits sum.splits prod.splits option.splits)

lemma TestGetgid_pops:
  "TestGetgid env params = PopFailed e \<Longrightarrow> e = SizeMismatch"
  by (auto simp: TestGetgid_def handler_helper_defs Let_def butlast_eq_Nil_iff
      split: if_splits sum.splits prod.splits option.splits)

lemma TestGeteuid_pops:
  "TestGeteuid env params = PopFailed e \<Longrightarrow> e = SizeMismatch"
  by (auto simp: TestGeteuid_def handler_helper_defs Let_def butlast_eq_Nil_iff
      split: if_splits sum.splits prod.splits option.splits)

lemma TestGetegid_pops:
  "TestGetegid env params = PopFailed e \<Longrightarrow> e = SizeMismatch"
  by (auto simp: TestGetegid_def handler_helper_defs Let_def butlast_eq_Nil_iff
      split: if_splits sum.splits prod.splits option.splits)

lemma TestRename_pops:
  "TestRename env params = PopFailed e \<Longrightarrow> e = SizeMismatch"
  by (auto simp: TestRename_def handler_helper_defs Let_def butlast_eq_Nil_iff
      split: if_splits sum.splits prod.splits option.splits)

lemma TestRead_pops:
  "TestRead env params = PopFailed e \<Longrightarrow> e = SizeMismatch"
  by (auto simp: TestRead_def handler_helper_defs Let_def butlast_eq_Nil_iff
      split: if_splits sum.splits prod.splits option.splits)

lemma TestWrite_pops:
  "TestWrite env params = PopFailed e \<Longrightarrow> e = SizeMismatch"
  by (auto simp: TestWrite_def handler_helper_defs Let_def butlast_eq_Nil_iff
      split: if_splits sum.splits prod.splits option.splits)

lemma TestSymlink_pops:
  "TestSymlink env params = PopFailed e \<Longrightarrow> e = SizeMismatch"
  by (auto simp: TestSymlink_def handler_helper_defs Let_def butlast_eq_Nil_iff
      split: if_splits sum.splits prod.splits option.splits)

lemma TestReadlink_pops:
  "TestReadlink env params = PopFailed e \<Longrightarrow> e = SizeMismatch"
  by (auto simp: TestReadlink_def handler_helper_defs Let_def butlast_eq_Nil_iff
      split: if_splits sum.splits prod.splits option.splits)

lemma TestTruncate_pops:
  "TestTruncate env params = PopFailed e \<Longrightarrow> e = SizeMismatch"
  by (auto simp: TestTruncate_def handler_helper_defs Let_def butlast_eq_Nil_iff
      split: if_splits sum.splits prod.splits option.splits)

lemma TestFTruncate_pops:
  "TestFTruncate env params = PopFailed e \<Longrightarrow> e = SizeMismatch"
  by (auto simp: TestFTruncate_def handler_helper_defs Let_def butlast_eq_Nil_iff
      split: if_splits sum.splits prod.splits option.splits)

lemma TestRmdir_pops:
  "TestRmdir env params = PopFailed e \<Longrightarrow> e = SizeMismatch"
  by (auto simp: TestRmdir_def handler_helper_defs Let_def butlast_eq_Nil_iff
      split: if_splits sum.splits prod.splits option.splits)

lemma TestSocket_pops:
  "TestSocket env params = PopFailed e \<Longrightarrow> e = SizeMismatch"
  by (auto simp: TestSocket_def handler_helper_defs Let_def butlast_eq_Nil_iff
      split: if_splits sum.splits prod.splits option.splits)

lemma TestFcntl_pops:
  "TestFcntl env params = PopFailed e \<Longrightarrow> e = SizeMismatch"
  by (auto simp: TestFcntl_def handler_helper_defs Let_def butlast_eq_Nil_iff
      split: if_splits sum.splits prod.splits option.splits)

lemma TestChown_pops:
  "TestChown env params = PopFailed e \<Longrightarrow> e = SizeMismatch"
  by (auto simp: TestChown_def handler_helper_defs Let_def butlast_eq_Nil_iff
      split: if_splits sum.splits prod.splits option.splits)

lemma TestFChown_pops:
  "TestFChown env params = PopFailed e \<Longrightarrow> e = SizeMismatch"
  by (auto simp: TestFChown_def handler_helper_defs Let_def butlast_eq_Nil_iff
      split: if_splits sum.splits prod.splits option.splits)

lemma TestSetsockopt_pops:
  "TestSetsockopt env params = PopFailed e \<Longrightarrow> e = SizeMismatch"
  by (auto simp: TestSetsockopt_def handler_helper_defs Let_def butlast_eq_Nil_iff
      split: if_splits sum.splits prod.splits option.splits)

lemma TestFlock_pops:
  "TestFlock env params = PopFailed e \<Longrightarrow> e = SizeMismatch"
  by (auto simp: TestFlock_def handler_helper_defs Let_def butlast_eq_Nil_iff
      split: if_splits sum.splits prod.splits option.splits)

lemma TestFsync_pops:
  "TestFsync env params = PopFailed e \<Longrightarrow> e = SizeMismatch"
  by (auto simp: TestFsync_def handler_helper_defs Let_def butlast_eq_Nil_iff
      split: if_splits sum.splits prod.splits option.splits)

lemma TestInotifyInit1_pops:
  "TestInotifyInit1 env params = PopFailed e \<Longrightarrow> e = SizeMismatch"
  by (auto simp: TestInotifyInit1_def handler_helper_defs Let_def butlast_eq_Nil_iff
      split: if_splits sum.splits prod.splits option.splits)

lemma TestInotifyAddWatch_pops:
  "TestInotifyAddWatch env params = PopFailed e \<Longrightarrow> e = SizeMismatch"
  by (auto simp: TestInotifyAddWatch_def handler_helper_defs Let_def butlast_eq_Nil_iff
      split: if_splits sum.splits prod.splits option.splits)

lemma TestInotifyRmWatch_pops:
  "TestInotifyRmWatch env params = PopFailed e \<Longrightarrow> e = SizeMismatch"
  by (auto simp: TestInotifyRmWatch_def handler_helper_defs Let_def butlast_eq_Nil_iff
      split: if_splits sum.splits prod.splits option.splits)

lemma TestSchedYield_pops:
  "TestSchedYield env params = PopFailed e \<Longrightarrow> e = SizeMismatch"
  by (auto simp: TestSchedYield_def handler_helper_defs Let_def butlast_eq_Nil_iff
      split: if_splits sum.splits prod.splits option.splits)

lemma TestIsAtty_pops:
  "TestIsAtty env params = PopFailed e \<Longrightarrow> e = SizeMismatch"
  by (auto simp: TestIsAtty_def handler_helper_defs Let_def butlast_eq_Nil_iff
      split: if_splits sum.splits prod.splits option.splits)

lemma TestUSleep_pops:
  "TestUSleep env params = PopFailed e \<Longrightarrow> e = SizeMismatch"
  by (auto simp: TestUSleep_def handler_helper_defs Let_def butlast_eq_Nil_iff
      split: if_splits sum.splits prod.splits option.splits)

section \<open>The entry table of the test enclave\<close>

lemma permitted_user: "kSelectorUser \<le> s \<Longrightarrow> permitted who s"
  by (auto simp: permitted_def is_host_call_selector_def is_reserved_selector_def
      kSelectorRemote_def kSelectorUser_def)

lemma register_entries_lookup:
  "snd (register_entries es reg) s = Some h \<Longrightarrow> reg s = Some h \<or> (s, h) \<in> set es"
proof (induction es arbitrary: reg)
  case Nil
  then show ?case by simp
next
  case (Cons e es)
  obtain s0 h0 where e: "e = (s0, h0)" by (cases e)
  show ?case
  proof (cases "RegisterEntryHandler s0 h0 reg")
    case (Inl err)
    then show ?thesis using Cons.prems e by simp
  next
    case (Inr reg1)
    then have reg1: "reg1 = reg(s0 \<mapsto> h0)"
      by (auto simp: RegisterEntryHandler_def register_handler_def split: if_splits)
    from Cons.prems e Inr have "snd (register_entries es reg1) s = Some h" by simp
    from Cons.IH [OF this] show ?thesis using reg1 e by (auto split: if_splits)
  qed
qed

lemma register_entries_ok:
  "distinct (map fst es) \<Longrightarrow> (\<forall>s \<in> fst ` set es. reg s = None \<and> kSelectorUser \<le> s) \<Longrightarrow>
   fst (register_entries es reg) = OkStatus
   \<and> (\<forall>s. snd (register_entries es reg) s = (case map_of es s of Some h \<Rightarrow> Some h | None \<Rightarrow> reg s))"
proof (induction es arbitrary: reg)
  case Nil
  then show ?case by simp
next
  case (Cons e es)
  obtain s0 h0 where e: "e = (s0, h0)" by (cases e)
  from Cons.prems e have s0: "reg s0 = None" "kSelectorUser \<le> s0" by simp_all
  then have r: "RegisterEntryHandler s0 h0 reg = Inr (reg(s0 \<mapsto> h0))"
    by (simp add: RegisterEntryHandler_def register_handler_def permitted_user)
  have d: "distinct (map fst es)" using Cons.prems by simp
  have fresh: "map_of es s0 = None"
    using Cons.prems e by (simp add: map_of_eq_None_iff)
  define reg1 where "reg1 = reg(s0 \<mapsto> h0)"
  have "\<forall>s \<in> fst ` set es. reg1 s = None \<and> kSelectorUser \<le> s"
    using Cons.prems e by (auto simp: reg1_def)
  from Cons.IH [OF d this]
  have ok: "fst (register_entries es reg1) = OkStatus"
    and tab: "\<And>s. snd (register_entries es reg1) s
                = (case map_of es s of Some h \<Rightarrow> Some h | None \<Rightarrow> reg1 s)"
    by simp_all
  have step: "register_entries (e # es) reg = register_entries es reg1"
    using r e by (simp add: reg1_def)
  have "snd (register_entries es reg1) s
          = (case map_of (e # es) s of Some h \<Rightarrow> Some h | None \<Rightarrow> reg s)" for s
  proof (cases "s = s0")
    case True
    then show ?thesis using tab [of s0] fresh e by (simp add: reg1_def)
  next
    case False
    then show ?thesis using tab [of s] e by (simp add: reg1_def split: option.splits)
  qed
  then show ?case using ok step by simp
qed

lemma test_entries_distinct: "distinct (map fst (test_entries env))"
  by (simp add: test_entries_def test_selector_defs kSelectorUser_def)

lemma test_entries_user: "\<forall>s \<in> fst ` set (test_entries env). kSelectorUser \<le> s"
  by (simp add: test_entries_def test_selector_defs kSelectorUser_def)

lemma asylo_enclave_init_ok:
  "fst (asylo_enclave_init env Map.empty) = OkStatus"
  "snd (asylo_enclave_init env Map.empty) s = map_of (test_entries env) s"
  using register_entries_ok [OF test_entries_distinct, of env Map.empty] test_entries_user [of env]
  by (auto simp: asylo_enclave_init_def split: option.splits)

lemma test_entries_results:
  "(s, h) \<in> set (test_entries env) \<Longrightarrow> h params = Returned OkStatus params' \<Longrightarrow>
   stack_size params' = declared_results s"
  unfolding test_entries_def
  by (auto simp: declared_results_def test_selector_defs kSelectorUser_def
      dest:
        Abort_results TestAccess_results TestChmod_results TestClose_results
        TestFchmod_results TestGetpid_results TestGetPpid_results TestSetSid_results
        TestKill_results TestLink_results TestLseek_results TestMkdir_results
        TestOpen_results TestUnlink_results TestUmask_results TestGetuid_results
        TestGetgid_results TestGeteuid_results TestGetegid_results TestRename_results
        TestRead_results TestWrite_results TestSymlink_results TestReadlink_results
        TestTruncate_results TestFTruncate_results TestRmdir_results TestSocket_results
        TestFcntl_results TestChown_results TestFChown_results TestSetsockopt_results
        TestFlock_results TestFsync_results TestInotifyInit1_results
        TestInotifyAddWatch_results TestInotifyRmWatch_results TestSchedYield_results
        TestIsAtty_results TestUSleep_results)

text \<open>The counts the table gives for each selector of the test enclave.\<close>
lemma accepts_kAbortEnclaveSelector: "accepts kAbortEnclaveSelector n = (n = 0)"
  by (simp add: accepts_def accepted_argument_counts_def test_selector_defs kSelectorUser_def)

lemma accepts_kTestAccess: "accepts kTestAccess n = (n = 2)"
  by (simp add: accepts_def accepted_argument_counts_def test_selector_defs kSelectorUser_def)

lemma accepts_kTestChmod: "accepts kTestChmod n = (n = 2)"
  by (simp add: accepts_def accepted_argument_counts_def test_selector_defs kSelectorUser_def)

lemma accepts_kTestClose: "accepts kTestClose n = (n = 1)"
  by (simp add: accepts_def accepted_argument_counts_def test_selector_defs kSelectorUser_def)

lemma accepts_kTestFchmod: "accepts kTestFchmod n = (n = 2)"
  by (simp add: accepts_def accepted_argument_counts_def test_selector_defs kSelectorUser_def)

lemma accepts_kTestGetPid: "accepts kTestGetPid n = (n = 0)"
  by (simp add: accepts_def accepted_argument_counts_def test_selector_defs kSelectorUser_def)

lemma accepts_kTestGetPpid: "accepts kTestGetPpid n = (n = 0)"
  by (simp add: accepts_def accepted_argument_counts_def test_selector_defs kSelectorUser_def)

lemma accepts_kTestSetSid: "accepts kTestSetSid n = (n = 0)"
  by (simp add: accepts_def accepted_argument_counts_def test_selector_defs kSelectorUser_def)

lemma accepts_kTestKill: "accepts kTestKill n = (n = 2)"
  by (simp add: accepts_def accepted_argument_counts_def test_selector_defs kSelectorUser_def)

lemma accepts_kTestLink: "accepts kTestLink n = (n = 2)"
  by (simp add: accepts_def accepted_argument_counts_def test_selector_defs kSelectorUser_def)

lemma accepts_kTestLseek: "accepts kTestLseek n = (n = 3)"
  by (simp add: accepts_def accepted_argument_counts_def test_selector_defs kSelectorUser_def)

lemma accepts_kTestMkdir: "accepts kTestMkdir n = (n = 2)"
  by (simp add: accepts_def accepted_argument_counts_def test_selector_defs kSelectorUser_def)

lemma accepts_kTestOpen: "accepts kTestOpen n = (n = 3 \<or> n = 2)"
  by (simp add: accepts_def accepted_argument_counts_def test_selector_defs kSelectorUser_def)

lemma accepts_kTestUnlink: "accepts kTestUnlink n = (n = 1)"
  by (simp add: accepts_def accepted_argument_counts_def test_selector_defs kSelectorUser_def)

lemma accepts_kTestUmask: "accepts kTestUmask n = (n = 1)"
  by (simp add: accepts_def accepted_argument_counts_def test_selector_defs kSelectorUser_def)

lemma accepts_kTestGetUid: "accepts kTestGetUid n = (n = 0)"
  by (simp add: accepts_def accepted_argument_counts_def test_selector_defs kSelectorUser_def)

lemma accepts_kTestGetGid: "accepts kTestGetGid n = (n = 0)"
  by (simp add: accepts_def accepted_argument_counts_def test_selector_defs kSelectorUser_def)

lemma accepts_kTestGetEuid: "accepts kTestGetEuid n = (n = 0)"
  by (simp add: accepts_def accepted_argument_counts_def test_selector_defs kSelectorUser_def)

lemma accepts_kTestGetEgid: "accepts kTestGetEgid n = (n = 0)"
  by (simp add: accepts_def accepted_argument_counts_def test_selector_defs kSelectorUser_def)

lemma accepts_kTestRename: "accepts kTestRename n = (n = 2)"
  by (simp add: accepts_def accepted_argument_counts_def test_selector_defs kSelectorUser_def)

lemma accepts_kTestRead: "accepts kTestRead n = (n = 2)"
  by (simp add: accepts_def accepted_argument_counts_def test_selector_defs kSelectorUser_def)

lemma accepts_kTestWrite: "accepts kTestWrite n = (n = 3)"
  by (simp add: accepts_def accepted_argument_counts_def test_selector_defs kSelectorUser_def)

lemma accepts_kTestSymlink: "accepts kTestSymlink n = (n = 2)"
  by (simp add: accepts_def accepted_argument_counts_def test_selector_defs kSelectorUser_def)

lemma accepts_kTestReadLink: "accepts kTestReadLink n = (n = 1)"
  by (simp add: accepts_def accepted_argument_counts_def test_selector_defs kSelectorUser_def)

lemma accepts_kTestTruncate: "accepts kTestTruncate n = (n = 2)"
  by (simp add: accepts_def accepted_argument_counts_def test_selector_defs kSelectorUser_def)

lemma accepts_kTestFTruncate: "accepts kTestFTruncate n = (n = 2)"
  by (simp add: accepts_def accepted_argument_counts_def test_selector_defs kSelectorUser_def)

lemma accepts_kTestRmdir: "accepts kTestRmdir n = (n = 1)"
  by (simp add: accepts_def accepted_argument_counts_def test_selector_defs kSelectorUser_def)

lemma accepts_kTestSocket: "accepts kTestSocket n = (n = 3)"
  by (simp add: accepts_def accepted_argument_counts_def test_selector_defs kSelectorUser_def)

lemma accepts_kTestFcntl: "accepts kTestFcntl n = (n = 3)"
  by (simp add: accepts_def accepted_argument_counts_def test_selector_defs kSelectorUser_def)

lemma accepts_kTestChown: "accepts kTestChown n = (n = 3)"
  by (simp add: accepts_def accepted_argument_counts_def test_selector_defs kSelectorUser_def)

lemma accepts_kTestFChown: "accepts kTestFChown n = (n = 3)"
  by (simp add: accepts_def accepted_argument_counts_def test_selector_defs kSelectorUser_def)

lemma accepts_kTestSetSockOpt: "accepts kTestSetSockOpt n = (n = 4)"
  by (simp add: accepts_def accepted_argument_counts_def test_selector_defs kSelectorUser_def)

lemma accepts_kTestFlock: "accepts kTestFlock n = (n = 2)"
  by (simp add: accepts_def accepted_argument_counts_def test_selector_defs kSelectorUser_def)

lemma accepts_kTestFsync: "accepts kTestFsync n = (n = 1)"
  by (simp add: accepts_def accepted_argument_counts_def test_selector_defs kSelectorUser_def)

lemma accepts_kTestInotifyInit1: "accepts kTestInotifyInit1 n = (n = 1)"
  by (simp add: accepts_def accepted_argument_counts_def test_selector_defs kSelectorUser_def)

lemma accepts_kTestInotifyAddWatch: "accepts kTestInotifyAddWatch n = (n = 3)"
  by (simp add: accepts_def accepted_argument_counts_def test_selector_defs kSelectorUser_def)

lemma accepts_kTestInotifyRmWatch: "accepts kTestInotifyRmWatch n = (n = 2)"
  by (simp add: accepts_def accepted_argument_counts_def test_selector_defs kSelectorUser_def)

lemma accepts_kTestSchedYield: "accepts kTestSchedYield n = (n = 0)"
  by (simp add: accepts_def accepted_argument_counts_def test_selector_defs kSelectorUser_def)

lemma accepts_kTestIsAtty: "accepts kTestIsAtty n = (n = 1)"
  by (simp add: accepts_def accepted_argument_counts_def test_selector_defs kSelectorUser_def)

lemma accepts_kTestUSleep: "accepts kTestUSleep n = (n = 1)"
  by (simp add: accepts_def accepted_argument_counts_def test_selector_defs kSelectorUser_def)

lemmas accepts_test_selectors =
  accepts_kAbortEnclaveSelector accepts_kTestAccess accepts_kTestChmod accepts_kTestClose
  accepts_kTestFchmod accepts_kTestGetPid accepts_kTestGetPpid accepts_kTestSetSid
  accepts_kTestKill accepts_kTestLink accepts_kTestLseek accepts_kTestMkdir
  accepts_kTestOpen accepts_kTestUnlink accepts_kTestUmask accepts_kTestGetUid
  accepts_kTestGetGid accepts_kTestGetEuid accepts_kTestGetEgid accepts_kTestRename
  accepts_kTestRead accepts_kTestWrite accepts_kTestSymlink accepts_kTestReadLink
  accepts_kTestTruncate accepts_kTestFTruncate accepts_kTestRmdir accepts_kTestSocket
  accepts_kTestFcntl accepts_kTestChown accepts_kTestFChown accepts_kTestSetSockOpt
  accepts_kTestFlock accepts_kTestFsync accepts_kTestInotifyInit1
  accepts_kTestInotifyAddWatch accepts_kTestInotifyRmWatch accepts_kTestSchedYield
  accepts_kTestIsAtty accepts_kTestUSleep

lemma test_entries_errors:
  "(s, h) \<in> set (test_entries env) \<Longrightarrow> h params = Returned (Error e) params' \<Longrightarrow>
   e = InvalidArgument \<and> params' = params \<and> \<not> accepts s (stack_size params)"
  unfolding test_entries_def
  by (auto simp: accepts_test_selectors
      dest:
        Abort_errors TestAccess_errors TestChmod_errors TestClose_errors TestFchmod_errors
        TestGetpid_errors TestGetPpid_errors TestSetSid_errors TestKill_errors
        TestLink_errors TestLseek_errors TestMkdir_errors TestOpen_errors TestUnlink_errors
        TestUmask_errors TestGetuid_errors TestGetgid_errors TestGeteuid_errors
        TestGetegid_errors TestRename_errors TestRead_errors TestWrite_errors
        TestSymlink_errors TestReadlink_errors TestTruncate_errors TestFTruncate_errors
        TestRmdir_errors TestSocket_errors TestFcntl_errors TestChown_errors
        TestFChown_errors TestSetsockopt_errors TestFlock_errors TestFsync_errors
        TestInotifyInit1_errors TestInotifyAddWatch_errors TestInotifyRmWatch_errors
        TestSchedYield_errors TestIsAtty_errors TestUSleep_errors)

lemma test_entries_wrong_count:
  "(s, h) \<in> set (test_entries env) \<Longrightarrow> \<not> accepts s (stack_size params) \<Longrightarrow>
   h params = Returned (Error InvalidArgument) params"
  unfolding test_entries_def
  by (auto simp: accepts_test_selectors
        Abort_wrong_count TestAccess_wrong_count TestChmod_wrong_count
        TestClose_wrong_count TestFchmod_wrong_count TestGetpid_wrong_count
        TestGetPpid_wrong_count TestSetSid_wrong_count TestKill_wrong_count
        TestLink_wrong_count TestLseek_wrong_count TestMkdir_wrong_count
        TestOpen_wrong_count TestUnlink_wrong_count TestUmask_wrong_count
        TestGetuid_wrong_count TestGetgid_wrong_count TestGeteuid_wrong_count
        TestGetegid_wrong_count TestRename_wrong_count TestRead_wrong_count
        TestWrite_wrong_count TestSymlink_wrong_count TestReadlink_wrong_count
        TestTruncate_wrong_count TestFTruncate_wrong_count TestRmdir_wrong_count
        TestSocket_wrong_count TestFcntl_wrong_count TestChown_wrong_count
        TestFChown_wrong_count TestSetsockopt_wrong_count TestFlock_wrong_count
        TestFsync_wrong_count TestInotifyInit1_wrong_count TestInotifyAddWatch_wrong_count
        TestInotifyRmWatch_wrong_count TestSchedYield_wrong_count TestIsAtty_wrong_count
        TestUSleep_wrong_count)

lemma test_entries_pops:
  "(s, h) \<in> set (test_entries env) \<Longrightarrow> h params = PopFailed e \<Longrightarrow> e = SizeMismatch"
  unfolding test_entries_def
  by (auto dest:
        Abort_pops TestAccess_pops TestChmod_pops TestClose_pops TestFchmod_pops
        TestGetpid_pops TestGetPpid_pops TestSetSid_pops TestKill_pops TestLink_pops
        TestLseek_pops TestMkdir_pops TestOpen_pops TestUnlink_pops TestUmask_pops
        TestGetuid_pops TestGetgid_pops TestGeteuid_pops TestGetegid_pops TestRename_pops
        TestRead_pops TestWrite_pops TestSymlink_pops TestReadlink_pops TestTruncate_pops
        TestFTruncate_pops TestRmdir_pops TestSocket_pops TestFcntl_pops TestChown_pops
        TestFChown_pops TestSetsockopt_pops TestFlock_pops TestFsync_pops
        TestInotifyInit1_pops TestInotifyAddWatch_pops TestInotifyRmWatch_pops
        TestSchedYield_pops TestIsAtty_pops TestUSleep_pops)

lemma test_entries_lookup:
  "(s, h) \<in> set (test_entries env) \<Longrightarrow> snd (asylo_enclave_init env Map.empty) s = Some h"
  using test_entries_distinct [of env] by (simp add: asylo_enclave_init_ok)

lemma entry_lookup_Abort:
  "snd (asylo_enclave_init env Map.empty) kAbortEnclaveSelector = Some (Abort env)"
  by (simp add: asylo_enclave_init_ok test_entries_def test_selector_defs kSelectorUser_def)

lemma entry_lookup_TestAccess:
  "snd (asylo_enclave_init env Map.empty) kTestAccess = Some (TestAccess env)"
  by (simp add: asylo_enclave_init_ok test_entries_def test_selector_defs kSelectorUser_def)

lemma entry_lookup_TestRead:
  "snd (asylo_enclave_init env Map.empty) kTestRead = Some (TestRead env)"
  by (simp add: asylo_enclave_init_ok test_entries_def test_selector_defs kSelectorUser_def)

lemma EnclaveCall_loaded:
  "EnclaveCall (LoadTestEnclave env layout provider) s params
   = dispatch (snd (asylo_enclave_init env Map.empty)) s params"
  by (simp add: EnclaveCall_def LoadTestEnclave_def IsClosed_def)

lemma EnclaveCall_results:
  assumes "EnclaveCall (LoadTestEnclave env layout provider) s params = Returned OkStatus params'"
  shows "stack_size params' = declared_results s"
proof -
  from assms obtain h where h: "snd (asylo_enclave_init env Map.empty) s = Some h"
    and r: "h params = Returned OkStatus params'"
    by (auto simp: EnclaveCall_def LoadTestEnclave_def IsClosed_def dispatch_def split: option.splits)
  from h have "(s, h) \<in> set (test_entries env)"
    by (simp add: asylo_enclave_init_ok map_of_SomeD)
  then show ?thesis using r by (rule test_entries_results)
qed

section \<open>Validators and client\<close>

lemma in_enclave_iff: "in_enclave l x = (x \<in> enclave_addresses l)"
  by (auto simp: in_enclave_def enclave_addresses_def in_region_def list_ex_iff)

lemma within_iff:
  "enc_is_within_enclave l a n = ({unat a ..< unat a + unat n} \<subseteq> enclave_addresses l)"
  by (auto simp: enc_is_within_enclave_def list_all_iff in_enclave_iff)


lemma test_layout_addresses:
  "enclave_addresses test_layout
   = {1000..<1100} \<union> {1100..<1200} \<union> {2000..<2500} \<union> {3000..<3100} \<union> {4000..<5000}
     \<union> {6000..<6010} \<union> {6010..<6020} \<union> {7000..<7100}"
  by (simp add: enclave_addresses_def regions_def test_layout_def Un_assoc)

lemma test_within: "enc_is_within_enclave test_layout 1098 4"
  by (auto simp: within_iff test_layout_addresses)





lemma Destroy_closed: "IsClosed (Destroy c)"
  by (simp add: Destroy_def IsClosed_def)

lemma Destroy_idem: "Destroy (Destroy c) = Destroy c"
  by (simp add: Destroy_def IsClosed_def)

lemma Destroy_funpow: "(Destroy ^^ Suc n) c = Destroy c"
  by (induction n) (simp_all add: Destroy_idem)


section \<open>Selector namespace\<close>

text \<open>
  C4. Selector 0 is invalid; 1, 2, 3 and 4 are the lifecycle entry points init, run,
  donate-thread and fini; the host-call sub-range starts at 112 and all of it lies below
  the user range; every selector from 128 upward is a user selector and every selector
  below 128 is reserved by the runtime.
\<close>
theorem selector_namespace_layout:
  "kSelectorAsyloInvalid = 0
   \<and> lifecycle_selector Init = 1
   \<and> lifecycle_selector Run = 2
   \<and> lifecycle_selector DonateThread = 3
   \<and> lifecycle_selector Fini = 4
   \<and> kSelectorHostCall = 112
   \<and> kSelectorUser = 128
   \<and> (\<forall>s. is_host_call_selector s = (112 \<le> s \<and> s < 128))
   \<and> kSelectorHostCall < kSelectorUser
   \<and> kSelectorRemote \<le> kSelectorUser
   \<and> (\<forall>s. (is_host_call_selector s \<and> is_reserved_selector s) = is_host_call_selector s)
   \<and> (\<forall>s. \<not> (is_host_call_selector s \<and> is_user_selector s))
   \<and> (\<forall>s. is_user_selector s = (128 \<le> s))
   \<and> (\<forall>s. is_reserved_selector s = (s < 128))
   \<and> (\<forall>s. is_reserved_selector s = (\<not> is_user_selector s))"
  by (auto simp: kSelectorAsyloInvalid_def kSelectorAsyloInit_def kSelectorAsyloRun_def
      kSelectorAsyloDonateThread_def kSelectorAsyloFini_def kSelectorHostCall_def
      kSelectorUser_def kSelectorRemote_def is_host_call_selector_def
      is_user_selector_def is_reserved_selector_def)

section \<open>Vectored I/O with a non-positive count\<close>

text \<open>
  C9. For every call of \<open>Writev\<close> or \<open>Readv\<close> with \<open>iovcnt \<le> 0\<close>, the function returns
  -1 and sets \<open>errno\<close> to \<open>EINVAL\<close>; the trace of allocations and host calls and the
  memory are as before the call, so no host call was issued and no untrusted buffer
  allocated.
\<close>
theorem vectored_io_rejects_nonpositive_count:
  assumes "iovcnt \<le> 0"
  shows "Writev host host_fd iov iovcnt st = (-1, st\<lparr>errno := EINVAL\<rparr>)
         \<and> Readv host host_fd iov iovcnt st = (-1, st\<lparr>errno := EINVAL\<rparr>)
         \<and> trace (snd (Writev host host_fd iov iovcnt st)) = trace st
         \<and> trace (snd (Readv host host_fd iov iovcnt st)) = trace st
         \<and> errno (snd (Writev host host_fd iov iovcnt st)) = EINVAL
         \<and> errno (snd (Readv host host_fd iov iovcnt st)) = EINVAL"
  using assms by (simp add: Writev_def Readv_def)

theorem vectored_io_rejects_nonpositive_count_witness:
  "(0 :: int) \<le> 0 \<and> (- 2 :: int) \<le> 0
   \<and> Writev \<lparr>Malloc = (\<lambda>n. 4096), enc_untrusted_writev = (\<lambda>fd buf sz. sz),
           enc_untrusted_readv = (\<lambda>fd cnt buf sz. sz)\<rparr> 3
      (\<lambda>i. \<lparr>iov_base = 64, iov_len = 8\<rparr>) 0
      \<lparr>errno = 0, memory = (\<lambda>a. 0), trace = []\<rparr>
    = (-1, \<lparr>errno = 22, memory = (\<lambda>a. 0), trace = []\<rparr>)
   \<and> Readv \<lparr>Malloc = (\<lambda>n. 4096), enc_untrusted_writev = (\<lambda>fd buf sz. sz),
           enc_untrusted_readv = (\<lambda>fd cnt buf sz. sz)\<rparr> 3
      (\<lambda>i. \<lparr>iov_base = 64, iov_len = 8\<rparr>) (-2)
      \<lparr>errno = 0, memory = (\<lambda>a. 0), trace = []\<rparr>
    = (-1, \<lparr>errno = 22, memory = (\<lambda>a. 0), trace = []\<rparr>)"
  using vectored_io_rejects_nonpositive_count
    [of 0 "\<lparr>Malloc = (\<lambda>n. 4096), enc_untrusted_writev = (\<lambda>fd buf sz. sz),
           enc_untrusted_readv = (\<lambda>fd cnt buf sz. sz)\<rparr>" 3
        "\<lambda>i. \<lparr>iov_base = 64, iov_len = 8\<rparr>" "\<lparr>errno = 0, memory = (\<lambda>a. 0), trace = []\<rparr>"]
    vectored_io_rejects_nonpositive_count
    [of "-2" "\<lparr>Malloc = (\<lambda>n. 4096), enc_untrusted_writev = (\<lambda>fd buf sz. sz),
           enc_untrusted_readv = (\<lambda>fd cnt buf sz. sz)\<rparr>" 3
        "\<lambda>i. \<lparr>iov_base = 64, iov_len = 8\<rparr>" "\<lparr>errno = 0, memory = (\<lambda>a. 0), trace = []\<rparr>"]
  by (simp add: EINVAL_def)

section \<open>Last in, first out\<close>

text \<open>
  C1. For every sequence of values pushed with \<open>PushByCopy\<close>, popping as many times
  yields the values in reverse order, each the very bytes that were pushed, and leaves
  the stack as it was before the pushes; an extent that \<open>push_by_copy\<close> accepts is popped
  as the bytes that memory held at the push. A handler that receives the arguments pushed
  in the order (path, mode) pops the mode first and the path second: \<open>TestAccess\<close> hands
  them to the host call as (path, mode).
\<close>
theorem parameter_stack_lifo:
  "pop_n (length vs) (push_all vs params) = Inr (rev vs, params)
   \<and> (push_by_copy variant l m e params = Inr params1
        \<longrightarrow> Pop params1 = Inr (extent_bytes m e, params))
   \<and> Pop_T sizeof_int (push_all [path, object_repr sizeof_int mode] [])
       = Inr (object_repr sizeof_int mode, [path])
   \<and> Pop [path] = Inr (path, [])
   \<and> TestAccess env (push_all [path, object_repr sizeof_int mode] [])
       = Returned OkStatus
           [object_repr sizeof_int
              (host_ret env enc_untrusted_access [path, object_repr sizeof_int mode])]"
proof -
  have "push_by_copy variant l m e params = Inr params1
        \<longrightarrow> Pop params1 = Inr (extent_bytes m e, params)"
    by (auto simp: push_by_copy_def Pop_PushByCopy split: if_splits)
  moreover have "Pop_T sizeof_int (push_all [path, object_repr sizeof_int mode] [])
       = Inr (object_repr sizeof_int mode, [path])"
    by (simp add: push_all_append Pop_T_def Pop_def length_object_repr)
  moreover have "Pop [path] = Inr (path, [])"
    by (simp add: Pop_def)
  ultimately show ?thesis
    by (simp add: pop_n_push_all TestAccess_pushed)
qed

theorem parameter_stack_lifo_witness:
  "pop_n 3 (push_all [[1, 2], [], [3]] [[9]]) = Inr ([[3], [], [1, 2]], [[9]])
   \<and> push_by_copy MustReferenceEnclaveMemory test_layout (\<lambda>a. 7)
        \<lparr>extent_address = 1098, extent_length = 4\<rparr> [[9]] = Inr [[9], [7, 7, 7, 7]]
   \<and> Pop [[9], [7, 7, 7, 7]] = Inr ([7, 7, 7, 7], [[9]])"
proof -
  have push: "push_by_copy MustReferenceEnclaveMemory test_layout (\<lambda>a. 7)
        \<lparr>extent_address = 1098, extent_length = 4\<rparr> [[9]] = Inr [[9], [7, 7, 7, 7]]"
    using test_within
    by (simp add: push_by_copy_def provenance_ok_def PushByCopy_def extent_bytes_def upt_rec)
  show ?thesis
    using parameter_stack_lifo [of "[[1, 2], [], [3]]" "[[9]]" MustReferenceEnclaveMemory
        test_layout "\<lambda>a. 7" "\<lparr>extent_address = 1098, extent_length = 4\<rparr>" "[[9], [7, 7, 7, 7]]"]
      push
    by (simp add: numeral_3_eq_3 push_all_def PushByCopy_def Pop_def)
qed

section \<open>A destroyed client\<close>

text \<open>
  C2. After \<open>Destroy\<close> has been called once or more, every \<open>EnclaveCall\<close>, whatever the
  selector and the stack, fails with \<open>Closed\<close> and leaves the stack alone; \<open>IsClosed\<close>,
  a total query without effect, is true; a second \<open>Destroy\<close> changes nothing: the client
  stays in the same closed state.
\<close>
theorem destroyed_client_is_closed:
  "EnclaveCall ((Destroy ^^ Suc n) c) s params = Returned (Error Closed) params
   \<and> IsClosed ((Destroy ^^ Suc n) c)
   \<and> Destroy (Destroy c) = Destroy c
   \<and> (Destroy ^^ Suc n) c = Destroy c
   \<and> lifecycle_state (Destroy c) = LifecycleClosed"
proof -
  have "(Destroy ^^ Suc n) c = Destroy c" by (rule Destroy_funpow)
  then show ?thesis
    using Destroy_closed [of c] Destroy_idem [of c]
    by (simp add: EnclaveCall_def IsClosed_def)
qed

section \<open>Registering a selector twice\<close>

text \<open>
  C3, amended. For every registry and every selector \<open>s\<close> that is not yet bound in it
  and that the registrant is permitted to use: the first registration of \<open>s\<close> succeeds;
  any second registration of \<open>s\<close> on that registry, by whichever registrant, fails with
  \<open>AlreadyRegistered\<close>, and the first handler stays bound and is the one dispatched. So
  the test enclave's initialisation succeeds on an empty table, and running it again on
  the table it built fails with \<open>AlreadyRegistered\<close> and leaves that table as it is.
\<close>
theorem registration_is_exclusive:
  assumes "reg s = None" and "permitted who s"
  shows "register_handler who s h1 reg = Inr (reg(s \<mapsto> h1))
         \<and> register_handler who2 s h2 (reg(s \<mapsto> h1)) = Inl AlreadyRegistered
         \<and> RegisterEntryHandler s h2 (reg(s \<mapsto> h1)) = Inl AlreadyRegistered
         \<and> RegisterExitHandler s h2 (reg(s \<mapsto> h1)) = Inl AlreadyRegistered
         \<and> (reg(s \<mapsto> h1)) s = Some h1
         \<and> dispatch (reg(s \<mapsto> h1)) s params = h1 params
         \<and> fst (asylo_enclave_init env Map.empty) = OkStatus
         \<and> asylo_enclave_init env (snd (asylo_enclave_init env Map.empty))
             = (Error AlreadyRegistered, snd (asylo_enclave_init env Map.empty))"
proof -
  have "asylo_enclave_init env (snd (asylo_enclave_init env Map.empty))
          = (Error AlreadyRegistered, snd (asylo_enclave_init env Map.empty))"
    using entry_lookup_Abort [of env]
    by (simp add: asylo_enclave_init_def test_entries_def RegisterEntryHandler_def
        register_handler_def)
  then show ?thesis
    using assms
    by (simp add: register_handler_def RegisterEntryHandler_def RegisterExitHandler_def
        dispatch_def asylo_enclave_init_ok)
qed

theorem registration_is_exclusive_witness:
  "Map.empty kTestAccess = (None :: handler option)
   \<and> permitted ApplicationCode kTestAccess
   \<and> RegisterEntryHandler kTestAccess (TestAccess test_host) Map.empty
       = Inr [kTestAccess \<mapsto> TestAccess test_host]
   \<and> RegisterEntryHandler kTestAccess (TestChmod test_host) [kTestAccess \<mapsto> TestAccess test_host]
       = Inl AlreadyRegistered
   \<and> RegisterExitHandler kTestAccess (TestChmod test_host) [kTestAccess \<mapsto> TestAccess test_host]
       = Inl AlreadyRegistered
   \<and> dispatch [kTestAccess \<mapsto> TestAccess test_host] kTestAccess [] = TestAccess test_host []"
proof -
  have p: "permitted ApplicationCode kTestAccess"
    by (simp add: permitted_user kTestAccess_def kSelectorUser_def)
  have e: "Map.empty kTestAccess = (None :: handler option)" by simp
  show ?thesis
    using registration_is_exclusive [OF e p, of "TestAccess test_host" ApplicationCode
        "TestChmod test_host" "[]" test_host] p
    by (simp add: RegisterEntryHandler_def)
qed

theorem reserved_selector_counterexample:
  "RegisterEntryHandler kSelectorAsyloRun (TestAccess test_host) Map.empty = Inl ReservedSelector"
  by (simp add: RegisterEntryHandler_def register_handler_def permitted_def
      is_host_call_selector_def is_reserved_selector_def kSelectorAsyloRun_def
      kSelectorHostCall_def kSelectorUser_def kSelectorRemote_def)

section \<open>The abort entry point\<close>

text \<open>
  C5, amended. Invoked with an empty parameter stack, the abort entry point terminates
  the enclave through the best-effort abort and returns no status. Invoked with any other
  stack, its argument check returns \<open>InvalidArgument\<close> as an ordinary status, and the
  stack is untouched.
\<close>
theorem abort_entry_point:
  "Abort env params
     = (if params = [] then Aborted ''Aborting enclave''
        else Returned (Error InvalidArgument) params)
   \<and> EnclaveCall (LoadTestEnclave env layout provider) kAbortEnclaveSelector params
     = (if params = [] then Aborted ''Aborting enclave''
        else Returned (Error InvalidArgument) params)"
  by (simp add: EnclaveCall_loaded dispatch_def entry_lookup_Abort Abort_def
      ASYLO_RETURN_IF_STACK_EMPTY_def BestEffortAbort_def)

theorem abort_returns_counterexample:
  "EnclaveCall (LoadTestEnclave test_host test_layout Map.empty) kAbortEnclaveSelector [[0]]
   = Returned (Error InvalidArgument) [[0]]"
  by (simp add: EnclaveCall_loaded dispatch_def entry_lookup_Abort Abort_def
      ASYLO_RETURN_IF_STACK_EMPTY_def)

section \<open>Popping more than was pushed\<close>

text \<open>
  C6. Popping more entries than the stack holds fails with \<open>Underflow\<close>, and what
  successful pops return is the top of the stack itself, nothing from beyond it. Every
  handler of the test enclave that is invoked with an argument count it does not accept
  returns \<open>InvalidArgument\<close> and leaves the stack as it was, called directly or through
  \<open>EnclaveCall\<close>: \<open>TestOpen\<close> for every count other than 2 and 3, \<open>TestAccess\<close> for
  every count other than 2, and each of the forty for every count outside its own. No
  handler ever pops an empty stack, and the only error a handler returns is that
  \<open>InvalidArgument\<close> of a rejected count.
\<close>
theorem pop_beyond_stack_fails:
  "(stack_size params < n \<longrightarrow> pop_n n params = Inl Underflow)
   \<and> (pop_n n params = Inr (vs, rest) \<longrightarrow> params = rest @ rev vs)
   \<and> Pop [] = Inl Underflow
   \<and> (stack_size params \<noteq> 2 \<and> stack_size params \<noteq> 3
        \<longrightarrow> TestOpen env params = Returned (Error InvalidArgument) params)
   \<and> (stack_size params \<noteq> 2
        \<longrightarrow> TestAccess env params = Returned (Error InvalidArgument) params)
   \<and> ((s, h) \<in> set (test_entries env) \<and> \<not> accepts s (stack_size params)
        \<longrightarrow> h params = Returned (Error InvalidArgument) params
            \<and> EnclaveCall (LoadTestEnclave env layout provider) s params
                = Returned (Error InvalidArgument) params)
   \<and> ((s, h) \<in> set (test_entries env)
        \<longrightarrow> h params \<noteq> PopFailed Underflow \<and> h params \<noteq> Returned (Error Underflow) params')
   \<and> ((s, h) \<in> set (test_entries env) \<and> h params = Returned (Error e) params'
        \<longrightarrow> e = InvalidArgument \<and> params' = params \<and> \<not> accepts s (stack_size params))"
proof -
  have "stack_size params < n \<longrightarrow> pop_n n params = Inl Underflow"
    by (simp add: stack_size_def pop_n_underflow)
  moreover have "pop_n n params = Inr (vs, rest) \<longrightarrow> params = rest @ rev vs"
    using pop_n_inside [of n params vs rest] by blast
  moreover have "Pop [] = Inl Underflow"
    by (simp add: Pop_def)
  moreover have "(s, h) \<in> set (test_entries env) \<and> \<not> accepts s (stack_size params)
        \<longrightarrow> h params = Returned (Error InvalidArgument) params
            \<and> EnclaveCall (LoadTestEnclave env layout provider) s params
                = Returned (Error InvalidArgument) params"
    using test_entries_wrong_count [of s h env params] test_entries_lookup [of s h env]
    by (auto simp: EnclaveCall_loaded dispatch_def)
  moreover have "(s, h) \<in> set (test_entries env)
        \<longrightarrow> h params \<noteq> PopFailed Underflow \<and> h params \<noteq> Returned (Error Underflow) params'"
    using test_entries_pops [of s h env params Underflow]
      test_entries_errors [of s h env params Underflow params'] by auto
  moreover have "(s, h) \<in> set (test_entries env) \<and> h params = Returned (Error e) params'
        \<longrightarrow> e = InvalidArgument \<and> params' = params \<and> \<not> accepts s (stack_size params)"
    using test_entries_errors [of s h env params e params'] by blast
  ultimately show ?thesis
    using TestOpen_bad_count [of params env] TestAccess_bad_count [of params env] by blast
qed

theorem pop_beyond_stack_fails_witness:
  "stack_size [[1]] < 2 \<and> pop_n 2 [[1]] = Inl Underflow
   \<and> stack_size [[1]] \<noteq> 2 \<and> stack_size [[1]] \<noteq> 3
   \<and> TestOpen test_host [[1]] = Returned (Error InvalidArgument) [[1]]
   \<and> TestAccess test_host [[1]] = Returned (Error InvalidArgument) [[1]]
   \<and> (kTestClose, TestClose test_host) \<in> set (test_entries test_host)
   \<and> \<not> accepts kTestClose (stack_size [])
   \<and> TestClose test_host [] = Returned (Error InvalidArgument) []
   \<and> EnclaveCall (LoadTestEnclave test_host test_layout Map.empty) kTestClose []
       = Returned (Error InvalidArgument) []
   \<and> pop_n 1 [[1], [2]] = Inr ([[2]], [[1]])
   \<and> [[1], [2]] = [[1]] @ rev [[2 :: byte]]"
proof -
  have one: "pop_n 1 [[1], [2]] = Inr ([[2 :: byte]], [[1]])"
    by (simp add: Pop_def)
  have entry: "(kTestClose, TestClose test_host) \<in> set (test_entries test_host)"
    by (simp add: test_entries_def)
  have cnt: "\<not> accepts kTestClose (stack_size [])"
    by (simp add: accepts_kTestClose stack_size_def)
  show ?thesis
    using pop_beyond_stack_fails [of "[[1]]" 2 "[]" "[]" test_host kTestClose
        "TestClose test_host" test_layout Map.empty "[]" InvalidArgument]
      pop_beyond_stack_fails [of "[]" 1 "[]" "[]" test_host kTestClose
        "TestClose test_host" test_layout Map.empty "[]" InvalidArgument]
      pop_beyond_stack_fails [of "[[1], [2]]" 1 "[[2]]" "[[1]]" test_host kTestClose
        "TestClose test_host" test_layout Map.empty "[]" InvalidArgument]
      one entry cnt
    by (simp add: stack_size_def)
qed

section \<open>Depth of the stack after a call\<close>

text \<open>
  C7. For every call through \<open>EnclaveCall\<close> on the loaded test enclave that returns
  success, the depth of the stack on return is exactly the number of result values of the
  entry point that was called.
\<close>
theorem call_leaves_declared_results:
  assumes "EnclaveCall (LoadTestEnclave env layout provider) s params = Returned OkStatus params'"
  shows "stack_size params' = declared_results s"
  using assms by (rule EnclaveCall_results)

theorem call_leaves_declared_results_witness:
  "EnclaveCall (LoadTestEnclave test_host test_layout Map.empty) kTestAccess
     (push_all [[47, 116, 0], object_repr sizeof_int 6] [])
     = Returned OkStatus [[0, 0, 0, 0]]
   \<and> stack_size [[0, 0, 0, 0]] = declared_results kTestAccess
   \<and> declared_results kTestAccess = 1"
proof -
  have call: "EnclaveCall (LoadTestEnclave test_host test_layout Map.empty) kTestAccess
     (push_all [[47, 116, 0], object_repr sizeof_int 6] [])
     = Returned OkStatus [[0, 0, 0, 0]]"
    by (simp add: EnclaveCall_loaded dispatch_def entry_lookup_TestAccess TestAccess_pushed)
       (simp add: test_host_def object_repr_def sizeof_int_def le_bytes_numeral)
  show ?thesis
    using call_leaves_declared_results [OF call] call
    by (simp add: stack_size_def)
qed

section \<open>Boundary validators\<close>



section \<open>The local buffer of TestRead\<close>

text \<open>
  C10. The claim: whatever count the caller supplies, \<open>TestRead\<close> stores into its
  20-byte buffer only within the buffer, and reads what it pushes back only from within
  it. The code at the call of \<open>HostCallTest.TestRead\<close> (count 27, a file of 27 bytes):
  the host call stores 27 bytes, the last at index 26 of \<open>read_buf[20]\<close>. And with count
  20 and 20 bytes without a terminator, \<open>strlen\<close> reads index 20.
\<close>
theorem TestRead_overruns_read_buf:
  "EnclaveCall (LoadTestEnclave test_host test_layout Map.empty) kTestRead
     (push_all [object_repr sizeof_int 3, object_repr sizeof_size_t 27] [])
     = OutOfBounds 20 26
   \<and> TestRead (test_host\<lparr>host_out := \<lambda>f args. replicate 20 65\<rparr>)
       (push_all [object_repr sizeof_int 3, object_repr sizeof_size_t 20] [])
     = OutOfBounds 20 20"
proof -
  have "TestRead test_host (push_all [object_repr sizeof_int 3, object_repr sizeof_size_t 27] [])
          = OutOfBounds 20 26"
    by (simp add: TestRead_def handler_helper_defs push_all_def object_repr_def test_host_def
      test_file_content_def sizeof_int_def sizeof_size_t_def sizeof_ssize_t_def le_bytes_numeral)
  moreover have "TestRead (test_host\<lparr>host_out := \<lambda>f args. replicate 20 65\<rparr>)
       (push_all [object_repr sizeof_int 3, object_repr sizeof_size_t 20] [])
     = OutOfBounds 20 20"
    by (simp add: TestRead_def handler_helper_defs push_all_def object_repr_def test_host_def
      sizeof_int_def sizeof_size_t_def sizeof_ssize_t_def le_bytes_numeral
      store_at_start_def strlen_def local_array_def)
  ultimately show ?thesis
    by (simp add: EnclaveCall_loaded dispatch_def entry_lookup_TestRead)
qed

end
